theory Spec2Isabelle
  imports Complex_Main
begin

section \<open>The relayer transaction pipeline\<close>

text \<open>
  A shallow embedding of the relayer pipeline of the payment service: the nonce
  manager (\<^verbatim>\<open>services/nonce.ts\<close>), the gas oracle (\<^verbatim>\<open>services/gas.ts\<close>), the
  pool calls of the relayer (\<^verbatim>\<open>services/relayer.ts\<close>), the ledger operations
  (\<^verbatim>\<open>services/payment.ts\<close>), the queue producers (\<^verbatim>\<open>queue/producers.ts\<close>) and the
  confirm worker (\<^verbatim>\<open>queue/workers/txConfirmWorker.ts\<close>).

  Every \<^verbatim>\<open>async\<close> function becomes a function from the state of the stores it
  touches to a result and the new state; a rejected promise is \<open>Inl\<close> of an error.
  The Redis keys hold decimal renderings of integers and are modelled by the integers
  they denote (\<open>None\<close>: the key does not exist). \<^verbatim>\<open>INCR\<close> and \<^verbatim>\<open>DECR\<close> work on
  signed 64-bit integers and fail outside that range; \<^verbatim>\<open>parseInt\<close> in JavaScript and
  \<^verbatim>\<open>tonumber\<close> in Lua give the nearest double. Numbers that are not integers
  (\<^verbatim>\<open>NaN\<close>, infinities, fractions) are outside the model.
\<close>

subsection \<open>Errors\<close>

datatype error =
    NonceNotInitialized
  | IncrOutOfRange
  | DecrOutOfRange
  | RelayerNotInitialized
  | RpcError
  | SendRejected
  | SendResponseLost
  | NoWallet
  | DecryptFailed
  | SyntaxError
  | UniqueConstraintFailed
  | RecordNotFound
  | ReceiptNotFound
  | StillPending

subsection \<open>Data\<close>

datatype TxStatus = pending | confirmed | failed | expired

text \<open>The contract call a relayer transaction carries (\<^verbatim>\<open>encodeFunctionData\<close>).\<close>

datatype pool_call =
    PoolTransfer string string int string
  | PoolWithdraw string string int

text \<open>The arguments of \<^verbatim>\<open>walletClient.sendTransaction\<close>.\<close>

record sent_tx =
  tx_account :: string
  tx_to :: string
  tx_data :: pool_call
  tx_gas :: int
  tx_gasPrice :: int
  tx_nonce :: int

text \<open>
  A row of the \<^verbatim>\<open>transaction\<close> table. The column \<open>amount\<close> holds a double, given
  by its value.
\<close>

record tx_row =
  row_id :: string
  senderId :: string
  recipientId :: string
  amount :: rat
  currency :: string
  txType :: string
  refId :: string
  status :: TxStatus
  idempotencyKey :: "string option"
  txHash :: "string option"
  errorMessage :: "string option"
  gasUsed :: "int option"
  gasPrice :: "int option"
  blockNumber :: "int option"
  confirmedAt :: "int option"

record TxSubmitJob =
  j_refId :: string
  j_senderUserId :: string
  j_recipientUserId :: string
  j_amount :: string
  j_txType :: string
  j_idempotencyKey :: string

record TxConfirmJob =
  c_refId :: string
  c_txHash :: string
  c_transactionId :: string

record TransactionResult =
  r_refId :: string
  r_txHash :: "string option"
  r_status :: TxStatus
  r_amount :: string
  r_currency :: string

datatype receipt_status = success | reverted

record receipt =
  rc_status :: receipt_status
  rc_gasUsed :: int
  rc_effectiveGasPrice :: int
  rc_blockNumber :: int

text \<open>What the node does with a submitted transaction, as the caller sees it.\<close>

datatype send_outcome =
    Accepted string
  | ThrowsBeforeBroadcast
  | ThrowsAfterBroadcast

text \<open>The message a finished confirm job sends to the sender of a transaction.\<close>

datatype notification =
    NotifyConfirmed string
  | NotifyFailedOnChain string

text \<open>
  The stores: the three Redis keys, the \<^verbatim>\<open>transaction\<close> table, the transactions the
  node has accepted, and the three queues.
\<close>

record world =
  NONCE_KEY :: "int option"
  GAS_PRICE_KEY :: "int option"
  GAS_PRICE_UPDATED_KEY :: "int option"
  transactions :: "tx_row list"
  broadcast :: "sent_tx list"
  txSubmitQueue :: "(string \<times> TxSubmitJob) list"
  txConfirmQueue :: "TxConfirmJob list"
  notifyQueue :: "notification list"

text \<open>
  What one invocation gets from outside the stores: the library functions
  (\<^verbatim>\<open>formatEther\<close> of the wei amount, \<^verbatim>\<open>parseFloat\<close> of a decimal string as the value
  of the double, \<^verbatim>\<open>toString\<close> of a double, among others), the clock, the id the
  database gives a created row, and the answers of the node.
\<close>

record env =
  relayerAccount :: "string option"
  poolAddress :: string
  wallets :: "string \<Rightarrow> (string \<times> string) option"
  decrypt :: "string \<times> string \<Rightarrow> error + string"
  BigInt :: "string \<Rightarrow> error + int"
  keccak256 :: "string \<Rightarrow> string"
  formatEther :: "int \<Rightarrow> string"
  parseFloat :: "string \<Rightarrow> rat"
  numberToString :: "rat \<Rightarrow> string"
  message :: "error \<Rightarrow> string"
  now :: int
  newId :: string
  rpcGasPrice :: "error + int"
  rpcEstimateGas :: "pool_call \<Rightarrow> error + int"
  rpcSend :: "sent_tx \<Rightarrow> send_outcome"
  rpcReceipt :: "string \<Rightarrow> error + receipt"

subsection \<open>Doubles and 64-bit integers\<close>

text \<open>
  The double nearest to an integer, ties to even: \<open>shift_for m\<close> is the number of low
  bits that do not fit into the 53-bit significand. This is what \<^verbatim>\<open>parseInt\<close> and
  \<^verbatim>\<open>tonumber\<close> return for the decimal rendering of the integer (below the overflow
  threshold of doubles).
\<close>

function shift_for :: "int \<Rightarrow> nat" where
  "shift_for m = (if m < 2 ^ 53 then 0 else Suc (shift_for (m div 2)))"
  by auto
termination
  by (relation "measure nat") auto

declare shift_for.simps [simp del]

definition to_double :: "int \<Rightarrow> int" where
  "to_double v =
     (let m = \<bar>v\<bar>; s = shift_for m; q = m div 2 ^ s; r = m mod 2 ^ s
      in if s = 0 then v
         else if 2 * r > 2 ^ s \<or> (2 * r = 2 ^ s \<and> odd q) then sgn v * ((q + 1) * 2 ^ s)
         else sgn v * (q * 2 ^ s))"

definition INT64_MIN :: int where
  "INT64_MIN = - (2 ^ 63)"

definition INT64_MAX :: int where
  "INT64_MAX = 2 ^ 63 - 1"

subsection \<open>Nonce manager\<close>

text \<open>The chain nonce is a JavaScript number; the stored value is read with \<^verbatim>\<open>parseInt\<close>.\<close>

definition initNonce :: "int \<Rightarrow> world \<Rightarrow> world" where
  "initNonce chainNonce w =
     w\<lparr>NONCE_KEY := Some (case NONCE_KEY w of
                           None \<Rightarrow> chainNonce
                         | Some currentRedisNonce \<Rightarrow> max chainNonce (to_double currentRedisNonce))\<rparr>"

text \<open>
  The allocation script runs as one \<^verbatim>\<open>EVAL\<close>: \<^verbatim>\<open>GET\<close>, then either an error
  (the key is missing) or \<^verbatim>\<open>INCR\<close> and the value read. \<^verbatim>\<open>INCR\<close> raises when the
  value is not a 64-bit integer or the increment would overflow; the script then
  aborts and nothing is written. The caller applies \<^verbatim>\<open>parseInt\<close> to the value read.
\<close>

definition acquireNonce :: "world \<Rightarrow> (error + int) \<times> world" where
  "acquireNonce w =
     (case NONCE_KEY w of
        None \<Rightarrow> (Inl NonceNotInitialized, w)
      | Some current \<Rightarrow>
          if INT64_MIN \<le> current \<and> current < INT64_MAX
          then (Inr (to_double current), w\<lparr>NONCE_KEY := Some (current + 1)\<rparr>)
          else (Inl IncrOutOfRange, w))"

text \<open>
  The reclaim script, with the script's reply (\<open>True\<close> for 1). Both sides of the
  comparison are Lua numbers: \<^verbatim>\<open>tonumber\<close> of the stored value, and \<^verbatim>\<open>tonumber\<close> of
  the argument plus one, added as doubles. On a missing key \<^verbatim>\<open>tonumber\<close> gives
  \<^verbatim>\<open>nil\<close>, which equals no number. \<^verbatim>\<open>DECR\<close> raises like \<^verbatim>\<open>INCR\<close>.
\<close>

definition reclaimNonce :: "int \<Rightarrow> world \<Rightarrow> (error + bool) \<times> world" where
  "reclaimNonce nonce w =
     (case NONCE_KEY w of
        None \<Rightarrow> (Inr False, w)
      | Some current \<Rightarrow>
          if to_double current = to_double (to_double nonce + 1)
          then (if INT64_MIN < current \<and> current \<le> INT64_MAX
                then (Inr True, w\<lparr>NONCE_KEY := Some (current - 1)\<rparr>)
                else (Inl DecrOutOfRange, w))
          else (Inr False, w))"

definition resyncNonce :: "int \<Rightarrow> world \<Rightarrow> world" where
  "resyncNonce chainNonce w = w\<lparr>NONCE_KEY := Some chainNonce\<rparr>"

text \<open>
  \<open>n\<close> calls of \<open>acquireNonce\<close>, one after the other, with what each returned. Each
  call is a single atomic script, so every interleaving of concurrent callers is such
  a sequence.
\<close>

fun acquireNonce_calls :: "nat \<Rightarrow> world \<Rightarrow> (error + int) list \<times> world" where
  "acquireNonce_calls 0 w = ([], w)"
| "acquireNonce_calls (Suc n) w =
     (let (r, w') = acquireNonce w;
          (rs, w'') = acquireNonce_calls n w'
      in (r # rs, w''))"

subsection \<open>Gas oracle\<close>

definition GAS_PRICE_CACHE_MS :: int where
  "GAS_PRICE_CACHE_MS = 3000"

definition getGasPrice :: "env \<Rightarrow> world \<Rightarrow> (error + int) \<times> world" where
  "getGasPrice e w =
     (let fresh =
        (case rpcGasPrice e of
           Inl err \<Rightarrow> (Inl err, w)
         | Inr price \<Rightarrow>
             (Inr price, w\<lparr>GAS_PRICE_KEY := Some price, GAS_PRICE_UPDATED_KEY := Some (now e)\<rparr>))
      in case (GAS_PRICE_KEY w, GAS_PRICE_UPDATED_KEY w) of
           (Some cached, Some updatedAt) \<Rightarrow>
             if now e - to_double updatedAt < GAS_PRICE_CACHE_MS then (Inr cached, w) else fresh
         | _ \<Rightarrow> fresh)"

text \<open>Division of \<^verbatim>\<open>bigint\<close> values truncates towards zero.\<close>

definition bigint_div :: "int \<Rightarrow> int \<Rightarrow> int" where
  "bigint_div a b = sgn a * sgn b * (\<bar>a\<bar> div \<bar>b\<bar>)"

definition addGasBuffer :: "int \<Rightarrow> int" where
  "addGasBuffer estimatedGas = bigint_div (estimatedGas * 120) 100"

subsection \<open>Relayer\<close>

definition sendTransaction :: "env \<Rightarrow> sent_tx \<Rightarrow> world \<Rightarrow> (error + string) \<times> world" where
  "sendTransaction e tx w =
     (case rpcSend e tx of
        Accepted h \<Rightarrow> (Inr h, w\<lparr>broadcast := broadcast w @ [tx]\<rparr>)
      | ThrowsBeforeBroadcast \<Rightarrow> (Inl SendRejected, w)
      | ThrowsAfterBroadcast \<Rightarrow> (Inl SendResponseLost, w\<lparr>broadcast := broadcast w @ [tx]\<rparr>))"

text \<open>
  The nonce is acquired before the \<^verbatim>\<open>try\<close>; the \<^verbatim>\<open>catch\<close> reclaims it for every
  error of the block and rethrows (an error of the reclaim itself takes its place).
\<close>

definition executePoolTransfer ::
  "env \<Rightarrow> string \<Rightarrow> string \<Rightarrow> int \<Rightarrow> string \<Rightarrow> world \<Rightarrow> (error + string) \<times> world" where
  "executePoolTransfer e fromAddress toAddress amountWei refIdBytes w =
     (case relayerAccount e of
        None \<Rightarrow> (Inl RelayerNotInitialized, w)
      | Some account \<Rightarrow>
          (case acquireNonce w of
             (Inl err, w1) \<Rightarrow> (Inl err, w1)
           | (Inr nonce, w1) \<Rightarrow>
               (let call = PoolTransfer fromAddress toAddress amountWei refIdBytes;
                    attempt =
                      (case getGasPrice e w1 of
                         (Inl err, w2) \<Rightarrow> (Inl err, w2)
                       | (Inr price, w2) \<Rightarrow>
                           (case rpcEstimateGas e call of
                              Inl err \<Rightarrow> (Inl err, w2)
                            | Inr gasEstimate \<Rightarrow>
                                sendTransaction e
                                  \<lparr>tx_account = account, tx_to = poolAddress e, tx_data = call,
                                   tx_gas = addGasBuffer gasEstimate, tx_gasPrice = price,
                                   tx_nonce = nonce\<rparr> w2))
                in case attempt of
                     (Inr h, w3) \<Rightarrow> (Inr h, w3)
                   | (Inl err, w3) \<Rightarrow>
                       (case reclaimNonce nonce w3 of
                          (Inl err', w4) \<Rightarrow> (Inl err', w4)
                        | (Inr reclaimed, w4) \<Rightarrow> (Inl err, w4)))))"

definition executePoolWithdraw ::
  "env \<Rightarrow> string \<Rightarrow> string \<Rightarrow> int \<Rightarrow> world \<Rightarrow> (error + string) \<times> world" where
  "executePoolWithdraw e fromAddress toAddress amountWei w =
     (case relayerAccount e of
        None \<Rightarrow> (Inl RelayerNotInitialized, w)
      | Some account \<Rightarrow>
          (case acquireNonce w of
             (Inl err, w1) \<Rightarrow> (Inl err, w1)
           | (Inr nonce, w1) \<Rightarrow>
               (let call = PoolWithdraw fromAddress toAddress amountWei;
                    attempt =
                      (case getGasPrice e w1 of
                         (Inl err, w2) \<Rightarrow> (Inl err, w2)
                       | (Inr price, w2) \<Rightarrow>
                           (case rpcEstimateGas e call of
                              Inl err \<Rightarrow> (Inl err, w2)
                            | Inr gasEstimate \<Rightarrow>
                                sendTransaction e
                                  \<lparr>tx_account = account, tx_to = poolAddress e, tx_data = call,
                                   tx_gas = addGasBuffer gasEstimate, tx_gasPrice = price,
                                   tx_nonce = nonce\<rparr> w2))
                in case attempt of
                     (Inr h, w3) \<Rightarrow> (Inr h, w3)
                   | (Inl err, w3) \<Rightarrow>
                       (case reclaimNonce nonce w3 of
                          (Inl err', w4) \<Rightarrow> (Inl err', w4)
                        | (Inr reclaimed, w4) \<Rightarrow> (Inl err, w4)))))"

subsection \<open>Ledger\<close>

text \<open>
  The table operations of the database client. The schema is not among the sources;
  \<^verbatim>\<open>findUnique\<close> is called on \<open>id\<close>, \<open>refId\<close> and \<open>idempotencyKey\<close>, so each is a unique
  column and \<^verbatim>\<open>create\<close> fails on a value a row already holds. \<^verbatim>\<open>update\<close> fails
  when no row has the id.
\<close>

definition findUnique :: "(tx_row \<Rightarrow> bool) \<Rightarrow> world \<Rightarrow> tx_row option" where
  "findUnique p w = find p (transactions w)"

definition create :: "tx_row \<Rightarrow> world \<Rightarrow> (error + tx_row) \<times> world" where
  "create row w =
     (if list_ex (\<lambda>r. row_id r = row_id row \<or> refId r = refId row \<or>
                      (idempotencyKey row \<noteq> None \<and> idempotencyKey r = idempotencyKey row))
           (transactions w)
      then (Inl UniqueConstraintFailed, w)
      else (Inr row, w\<lparr>transactions := transactions w @ [row]\<rparr>))"

definition update :: "string \<Rightarrow> (tx_row \<Rightarrow> tx_row) \<Rightarrow> world \<Rightarrow> (error + unit) \<times> world" where
  "update ident f w =
     (if list_ex (\<lambda>r. row_id r = ident) (transactions w)
      then (Inr (), w\<lparr>transactions := map (\<lambda>r. if row_id r = ident then f r else r) (transactions w)\<rparr>)
      else (Inl RecordNotFound, w))"

definition decryptWalletAddress :: "env \<Rightarrow> string \<Rightarrow> error + string" where
  "decryptWalletAddress e userId =
     (case wallets e userId of
        None \<Rightarrow> Inl NoWallet
      | Some wallet \<Rightarrow> decrypt e wallet)"

text \<open>
  \<^verbatim>\<open>processTransfer\<close>: the cached result is built from the stored row (its float amount
  printed), the fresh one from the job (the amount as \<^verbatim>\<open>formatEther\<close> gives it).
\<close>

definition processTransfer :: "env \<Rightarrow> TxSubmitJob \<Rightarrow> world \<Rightarrow> (error + TransactionResult) \<times> world" where
  "processTransfer e job w =
     (case findUnique (\<lambda>r. idempotencyKey r = Some (j_idempotencyKey job)) w of
        Some existing \<Rightarrow>
          (Inr \<lparr>r_refId = refId existing, r_txHash = txHash existing,
                r_status = status existing,
                r_amount = numberToString e (amount existing),
                r_currency = currency existing\<rparr>, w)
      | None \<Rightarrow>
          (case decryptWalletAddress e (j_senderUserId job) of
             Inl err \<Rightarrow> (Inl err, w)
           | Inr senderAddress \<Rightarrow>
          (case decryptWalletAddress e (j_recipientUserId job) of
             Inl err \<Rightarrow> (Inl err, w)
           | Inr recipientAddress \<Rightarrow>
          (case BigInt e (j_amount job) of
             Inl err \<Rightarrow> (Inl err, w)
           | Inr amountWei \<Rightarrow>
          (case create
                  \<lparr>row_id = newId e, senderId = j_senderUserId job,
                   recipientId = j_recipientUserId job,
                   amount = parseFloat e (formatEther e amountWei),
                   currency = ''MON'', txType = ''transfer'', refId = j_refId job,
                   status = pending, idempotencyKey = Some (j_idempotencyKey job),
                   txHash = None, errorMessage = None, gasUsed = None, gasPrice = None,
                   blockNumber = None, confirmedAt = None\<rparr> w of
             (Inl err, w1) \<Rightarrow> (Inl err, w1)
           | (Inr tx, w1) \<Rightarrow>
               (let attempt =
                      (case executePoolTransfer e senderAddress recipientAddress amountWei
                              (keccak256 e (j_refId job)) w1 of
                         (Inl err, w2) \<Rightarrow> (Inl err, w2)
                       | (Inr h, w2) \<Rightarrow>
                           (case update (row_id tx) (\<lambda>r. r\<lparr>txHash := Some h\<rparr>) w2 of
                              (Inl err, w3) \<Rightarrow> (Inl err, w3)
                            | (Inr u, w3) \<Rightarrow>
                                (Inr \<lparr>r_refId = j_refId job, r_txHash = Some h, r_status = pending,
                                      r_amount = formatEther e amountWei, r_currency = ''MON''\<rparr>, w3)))
                in case attempt of
                     (Inr result, w4) \<Rightarrow> (Inr result, w4)
                   | (Inl err, w4) \<Rightarrow>
                       (case update (row_id tx)
                               (\<lambda>r. r\<lparr>status := failed, errorMessage := Some (message e err)\<rparr>) w4 of
                          (Inl err', w5) \<Rightarrow> (Inl err', w5)
                        | (Inr u, w5) \<Rightarrow> (Inl err, w5))))))))"

definition confirmTransaction :: "env \<Rightarrow> string \<Rightarrow> string \<Rightarrow> world \<Rightarrow> TxStatus \<times> world" where
  "confirmTransaction e h transactionId w =
     (case rpcReceipt e h of
        Inl err \<Rightarrow> (pending, w)
      | Inr rc \<Rightarrow>
          if rc_status rc = success
          then (case update transactionId
                       (\<lambda>r. r\<lparr>status := confirmed, gasUsed := Some (rc_gasUsed rc),
                               gasPrice := Some (rc_effectiveGasPrice rc),
                               blockNumber := Some (rc_blockNumber rc),
                               confirmedAt := Some (now e)\<rparr>) w of
                  (Inl err, w1) \<Rightarrow> (pending, w1)
                | (Inr u, w1) \<Rightarrow> (confirmed, w1))
          else (case update transactionId
                       (\<lambda>r. r\<lparr>status := failed,
                               errorMessage := Some ''Transaction reverted on-chain'',
                               gasUsed := Some (rc_gasUsed rc),
                               blockNumber := Some (rc_blockNumber rc)\<rparr>) w of
                  (Inl err, w1) \<Rightarrow> (pending, w1)
                | (Inr u, w1) \<Rightarrow> (failed, w1)))"

text \<open>The statuses from which the specification allows no further transition.\<close>

definition terminal :: "TxStatus \<Rightarrow> bool" where
  "terminal s = (s = confirmed \<or> s = failed \<or> s = expired)"

subsection \<open>Queues and the confirm worker\<close>

text \<open>A job id that is already in the queue makes \<^verbatim>\<open>add\<close> a no-op.\<close>

definition enqueueTxSubmit :: "TxSubmitJob \<Rightarrow> world \<Rightarrow> world" where
  "enqueueTxSubmit job w =
     (if list_ex (\<lambda>(jobId, j). jobId = j_idempotencyKey job) (txSubmitQueue w)
      then w
      else w\<lparr>txSubmitQueue := txSubmitQueue w @ [(j_idempotencyKey job, job)]\<rparr>)"

definition enqueueTxConfirm :: "TxConfirmJob \<Rightarrow> world \<Rightarrow> world" where
  "enqueueTxConfirm job w = w\<lparr>txConfirmQueue := txConfirmQueue w @ [job]\<rparr>"

definition enqueueNotify :: "notification \<Rightarrow> world \<Rightarrow> world" where
  "enqueueNotify job w = w\<lparr>notifyQueue := notifyQueue w @ [job]\<rparr>"

text \<open>The retry budget of the confirm queue (\<^verbatim>\<open>attempts: 20\<close>, fixed 3000 ms backoff).\<close>

definition confirm_attempts :: nat where
  "confirm_attempts = 20"

definition confirm_backoff_ms :: nat where
  "confirm_backoff_ms = 3000"

text \<open>The processor of the confirm worker: a pending result is thrown, to be retried.\<close>

definition txConfirmProcessor :: "env \<Rightarrow> TxConfirmJob \<Rightarrow> world \<Rightarrow> (error + unit) \<times> world" where
  "txConfirmProcessor e job w =
     (case confirmTransaction e (c_txHash job) (c_transactionId job) w of
        (st, w1) \<Rightarrow>
          if st = pending then (Inl StillPending, w1)
          else (case findUnique (\<lambda>r. row_id r = c_transactionId job) w1 of
                  None \<Rightarrow> (Inr (), w1)
                | Some tx \<Rightarrow>
                    if st = confirmed then (Inr (), enqueueNotify (NotifyConfirmed (row_id tx)) w1)
                    else if st = failed then (Inr (), enqueueNotify (NotifyFailedOnChain (row_id tx)) w1)
                    else (Inr (), w1)))"

text \<open>The worker's \<^verbatim>\<open>failed\<close> handler; a failing update is logged and dropped.\<close>

definition onFailed :: "TxConfirmJob \<Rightarrow> nat \<Rightarrow> world \<Rightarrow> world" where
  "onFailed job attemptsMade w =
     (if attemptsMade \<ge> 20
      then snd (update (c_transactionId job)
                  (\<lambda>r. r\<lparr>status := expired, errorMessage := Some ''Confirmation timed out''\<rparr>) w)
      else w)"

text \<open>
  The queue running one confirm job: each delivery (one environment per delivery) runs
  the processor; a throw counts an attempt, fires the \<^verbatim>\<open>failed\<close> handler and, while
  the budget lasts, schedules the next delivery.
\<close>

fun runConfirmJob :: "TxConfirmJob \<Rightarrow> nat \<Rightarrow> env list \<Rightarrow> world \<Rightarrow> world" where
  "runConfirmJob job attemptsMade [] w = w"
| "runConfirmJob job attemptsMade (e # es) w =
     (case txConfirmProcessor e job w of
        (Inr u, w1) \<Rightarrow> w1
      | (Inl err, w1) \<Rightarrow>
          (let made = Suc attemptsMade;
               w2 = onFailed job made w1
           in if made < confirm_attempts then runConfirmJob job made es w2 else w2))"

subsection \<open>Concrete states\<close>

text \<open>
  Small states and environments on which the theorems below are evaluated. The one
  amount that occurs is 100 wei: \<^verbatim>\<open>formatEther\<close> gives \<^verbatim>\<open>0.0000000000000001\<close>, the double
  nearest to it is \<open>2028240960365167 / 2 ^ 104\<close>, and it prints as \<^verbatim>\<open>1e-16\<close>.
\<close>

definition world7 :: world where
  "world7 =
     \<lparr>NONCE_KEY = Some 7, GAS_PRICE_KEY = None, GAS_PRICE_UPDATED_KEY = None,
      transactions = [], broadcast = [], txSubmitQueue = [], txConfirmQueue = [],
      notifyQueue = []\<rparr>"

definition row1 :: tx_row where
  "row1 =
     \<lparr>row_id = ''t1'', senderId = ''alice'', recipientId = ''bob'',
      amount = 2028240960365167 / 2 ^ 104,
      currency = ''MON'', txType = ''transfer'', refId = ''ref-1'', status = pending,
      idempotencyKey = Some ''key-1'', txHash = Some ''0xaa'', errorMessage = None,
      gasUsed = None, gasPrice = None, blockNumber = None, confirmedAt = None\<rparr>"

definition ledger1 :: world where
  "ledger1 = world7\<lparr>NONCE_KEY := Some 8, transactions := [row1]\<rparr>"

definition receipt_ok :: receipt where
  "receipt_ok =
     \<lparr>rc_status = success, rc_gasUsed = 21000, rc_effectiveGasPrice = 50, rc_blockNumber = 12\<rparr>"

definition env_ok :: env where
  "env_ok =
     \<lparr>relayerAccount = Some ''0xrelayer'', poolAddress = ''0xpool'',
      wallets = (\<lambda>userId. Some (userId, ''iv'')),
      decrypt = (\<lambda>(enc, iv). Inr enc),
      BigInt = (\<lambda>s. if s = ''100'' then Inr 100 else Inl SyntaxError),
      keccak256 = (\<lambda>s. s),
      formatEther = (\<lambda>wei. ''0.0000000000000001''),
      parseFloat = (\<lambda>s. 2028240960365167 / 2 ^ 104),
      numberToString = (\<lambda>x. ''1e-16''),
      message = (\<lambda>err. ''error''),
      now = 1000, newId = ''t1'',
      rpcGasPrice = Inr 50,
      rpcEstimateGas = (\<lambda>call. Inr 100),
      rpcSend = (\<lambda>tx. Accepted ''0xaa''),
      rpcReceipt = (\<lambda>h. Inl ReceiptNotFound)\<rparr>"

definition env_lost :: env where
  "env_lost = env_ok\<lparr>rpcSend := (\<lambda>tx. ThrowsAfterBroadcast)\<rparr>"

definition env_mined :: env where
  "env_mined = env_ok\<lparr>rpcReceipt := (\<lambda>h. Inr receipt_ok)\<rparr>"

definition env_reverted :: env where
  "env_reverted = env_ok\<lparr>rpcReceipt := (\<lambda>h. Inr (receipt_ok\<lparr>rc_status := reverted\<rparr>))\<rparr>"

definition job1 :: TxSubmitJob where
  "job1 =
     \<lparr>j_refId = ''ref-1'', j_senderUserId = ''alice'', j_recipientUserId = ''bob'',
      j_amount = ''100'', j_txType = ''transfer'', j_idempotencyKey = ''key-1''\<rparr>"

definition job2 :: TxSubmitJob where
  "job2 = job1\<lparr>j_refId := ''ref-2''\<rparr>"

definition confirm1 :: TxConfirmJob where
  "confirm1 = \<lparr>c_refId = ''ref-1'', c_txHash = ''0xaa'', c_transactionId = ''t1''\<rparr>"

definition env_next :: env where
  "env_next = env_ok\<lparr>newId := ''t2'', rpcSend := (\<lambda>tx. Accepted ''0xbb'')\<rparr>"

definition job_next :: TxSubmitJob where
  "job_next = job1\<lparr>j_refId := ''ref-3'', j_idempotencyKey := ''key-3''\<rparr>"

definition ledger_expired :: world where
  "ledger_expired =
     ledger1\<lparr>transactions :=
       [row1\<lparr>status := expired, errorMessage := Some ''Confirmation timed out''\<rparr>]\<rparr>"

section \<open>Doubles\<close>

lemma shift_for_small: "m < 2 ^ 53 \<Longrightarrow> shift_for m = 0"
  by (simp add: shift_for.simps)

lemma shift_for_big: "2 ^ 53 \<le> m \<Longrightarrow> shift_for m = Suc (shift_for (m div 2))"
  by (subst shift_for.simps) simp

lemma shift_for_2_53: "shift_for (2 ^ 53) = 1"
  by (simp add: shift_for_big shift_for_small)

lemma to_double_exact: "\<bar>v\<bar> \<le> 2 ^ 53 \<Longrightarrow> to_double v = v"
proof (cases "\<bar>v\<bar> < 2 ^ 53")
  case True
  then show ?thesis by (simp add: to_double_def shift_for_small)
next
  case False
  assume "\<bar>v\<bar> \<le> 2 ^ 53"
  with False have m: "\<bar>v\<bar> = 2 ^ 53" by simp
  have s: "shift_for \<bar>v\<bar> = 1"
    by (simp only: m shift_for_2_53)
  have td: "to_double v =
      (if 2 * (\<bar>v\<bar> mod 2) > 2 \<or> (2 * (\<bar>v\<bar> mod 2) = 2 \<and> odd (\<bar>v\<bar> div 2))
       then sgn v * ((\<bar>v\<bar> div 2 + 1) * 2) else sgn v * (\<bar>v\<bar> div 2 * 2))"
    by (simp add: to_double_def Let_def s)
  from m have "v = 2 ^ 53 \<or> v = - (2 ^ 53)" by linarith
  then show ?thesis
    by (auto simp: td)
qed

lemma significand_lower:
  "2 ^ 52 \<le> m \<Longrightarrow> 2 ^ 52 \<le> m div 2 ^ shift_for m"
proof (induction m rule: shift_for.induct)
  case (1 m)
  show ?case
  proof (cases "m < 2 ^ 53")
    case True
    then show ?thesis using "1.prems" by (simp add: shift_for_small)
  next
    case False
    then have big: "2 ^ 53 \<le> m" by simp
    then have half: "(2::int) ^ 52 \<le> m div 2" by simp
    have "m div 2 ^ Suc (shift_for (m div 2)) = (m div 2) div 2 ^ shift_for (m div 2)"
      by (simp add: zdiv_zmult2_eq)
    then show ?thesis
      using "1.IH" [OF False half] by (simp add: shift_for_big [OF big])
  qed
qed

lemma to_double_big:
  assumes "2 ^ 53 < \<bar>v\<bar>"
  shows "2 ^ 53 \<le> \<bar>to_double v\<bar>"
proof -
  let ?m = "\<bar>v\<bar>"
  let ?s = "shift_for ?m"
  let ?q = "?m div 2 ^ ?s"
  have big: "2 ^ 53 \<le> ?m" using assms by simp
  have s: "?s = Suc (shift_for (?m div 2))" by (rule shift_for_big [OF big])
  then obtain k where k: "?s = Suc k" by blast
  have q: "2 ^ 52 \<le> ?q" by (rule significand_lower) (use big in simp)
  have p: "(2::int) \<le> 2 ^ ?s" by (simp add: k)
  have lo: "(2::int) ^ 53 \<le> ?q * 2 ^ ?s"
  proof -
    have "(2::int) ^ 53 = 2 ^ 52 * 2" by simp
    also have "\<dots> \<le> ?q * 2 ^ ?s" using q p by (intro mult_mono) simp_all
    finally show ?thesis .
  qed
  have lo': "(2::int) ^ 53 \<le> (?q + 1) * 2 ^ ?s"
  proof -
    have "?q * 2 ^ ?s \<le> (?q + 1) * 2 ^ ?s" by (intro mult_right_mono) simp_all
    with lo show ?thesis by linarith
  qed
  have v: "v \<noteq> 0" using assms by auto
  have abs_sgn: "\<And>x::int. 0 \<le> x \<Longrightarrow> \<bar>sgn v * x\<bar> = x"
    using v by (simp add: abs_mult)
  have pos: "(0::int) \<le> 2 ^ 53"
    by simp
  have nn1: "0 \<le> ?q * 2 ^ ?s"
    by (rule order_trans [OF pos lo])
  have nn2: "0 \<le> (?q + 1) * 2 ^ ?s"
    by (rule order_trans [OF pos lo'])
  have sne: "?s \<noteq> 0"
    by (simp add: k)
  have "to_double v = sgn v * ((?q + 1) * 2 ^ ?s) \<or> to_double v = sgn v * (?q * 2 ^ ?s)"
    by (simp add: to_double_def Let_def sne)
  then show ?thesis
  proof
    assume "to_double v = sgn v * ((?q + 1) * 2 ^ ?s)"
    then have "\<bar>to_double v\<bar> = (?q + 1) * 2 ^ ?s"
      by (simp only: abs_sgn [OF nn2])
    then show ?thesis by (simp only: lo')
  next
    assume "to_double v = sgn v * (?q * 2 ^ ?s)"
    then have "\<bar>to_double v\<bar> = ?q * 2 ^ ?s"
      by (simp only: abs_sgn [OF nn1])
    then show ?thesis by (simp only: lo)
  qed
qed

lemma to_double_2_53_plus_1: "to_double (2 ^ 53 + 1) = 2 ^ 53"
  by (simp add: to_double_def shift_for_big shift_for_small Let_def)

section \<open>Nonce sequencer\<close>

lemma int64_of_double_range:
  "\<bar>c\<bar> \<le> 2 ^ 53 \<Longrightarrow> INT64_MIN < c \<and> c < INT64_MAX"
  by (simp add: INT64_MIN_def INT64_MAX_def) linarith

lemma acquireNonce_exact:
  assumes "NONCE_KEY w = Some c" and "\<bar>c\<bar> \<le> 2 ^ 53"
  shows "acquireNonce w = (Inr c, w\<lparr>NONCE_KEY := Some (c + 1)\<rparr>)"
  using assms(1) int64_of_double_range [OF assms(2)] to_double_exact [OF assms(2)]
  by (simp add: acquireNonce_def)

lemma acquireNonce_calls_from:
  "NONCE_KEY w = Some start \<Longrightarrow> - (2 ^ 53) \<le> start \<Longrightarrow> start + int n \<le> 2 ^ 53 \<Longrightarrow>
     acquireNonce_calls n w =
       (map (\<lambda>i. Inr (start + int i)) [0..<n], w\<lparr>NONCE_KEY := Some (start + int n)\<rparr>)"
proof (induction n arbitrary: w start)
  case 0
  then show ?case by simp
next
  case (Suc n)
  have range: "\<bar>start\<bar> \<le> 2 ^ 53"
    using Suc.prems(2,3) by linarith
  have step: "acquireNonce w = (Inr start, w\<lparr>NONCE_KEY := Some (start + 1)\<rparr>)"
    by (rule acquireNonce_exact [OF Suc.prems(1) range])
  have lo: "- (2 ^ 53) \<le> start + 1"
    using Suc.prems(2) by linarith
  have hi: "start + 1 + int n \<le> 2 ^ 53"
    using Suc.prems(3) by simp
  have rest: "acquireNonce_calls n (w\<lparr>NONCE_KEY := Some (start + 1)\<rparr>) =
      (map (\<lambda>i. Inr (start + 1 + int i)) [0..<n],
       w\<lparr>NONCE_KEY := Some (start + 1 + int n)\<rparr>)"
    using Suc.IH [of "w\<lparr>NONCE_KEY := Some (start + 1)\<rparr>" "start + 1", OF _ lo hi] by simp
  have shift: "map (\<lambda>i. Inr (start + int i) :: error + int) [0..<Suc n] =
      Inr start # map (\<lambda>i. Inr (start + 1 + int i)) [0..<n]"
    by (simp add: upt_rec [of 0 "Suc n"] map_Suc_upt [symmetric] del: upt_Suc)
  show ?case
    by (simp only: acquireNonce_calls.simps step rest shift Let_def prod.case) (simp add: add.assoc)
qed

text \<open>
  Claim C1. On a counter holding \<open>start\<close>, with \<open>start\<close> and the \<open>n\<close> values that follow
  inside the range in which doubles are exact (from \<open>- 2 ^ 53\<close> to \<open>2 ^ 53\<close>),
  \<open>acquireNonce\<close> returns \<open>start\<close> and leaves the counter at \<open>start + 1\<close>; \<open>n\<close> calls
  return \<open>start, start + 1, \<dots>, start + n - 1\<close> in this order and leave the counter at
  \<open>start + n\<close>; the returned values are pairwise different.
\<close>

theorem nonce_allocation_sequence:
  assumes "NONCE_KEY w = Some start"
    and "- (2 ^ 53) \<le> start"
    and "start + int n \<le> 2 ^ 53"
  shows "acquireNonce w = (Inr start, w\<lparr>NONCE_KEY := Some (start + 1)\<rparr>) \<and>
         acquireNonce_calls n w =
           (map (\<lambda>i. Inr (start + int i)) [0..<n], w\<lparr>NONCE_KEY := Some (start + int n)\<rparr>) \<and>
         distinct (fst (acquireNonce_calls n w))"
proof (intro conjI)
  have "\<bar>start\<bar> \<le> 2 ^ 53"
    using assms(2,3) by linarith
  then show "acquireNonce w = (Inr start, w\<lparr>NONCE_KEY := Some (start + 1)\<rparr>)"
    by (rule acquireNonce_exact [OF assms(1)])
  show calls: "acquireNonce_calls n w =
           (map (\<lambda>i. Inr (start + int i)) [0..<n], w\<lparr>NONCE_KEY := Some (start + int n)\<rparr>)"
    using assms by (rule acquireNonce_calls_from)
  show "distinct (fst (acquireNonce_calls n w))"
    by (simp add: calls distinct_map inj_on_def)
qed

theorem nonce_allocation_sequence_witness:
  "NONCE_KEY world7 = Some 7 \<and> - (2 ^ 53) \<le> (7::int) \<and> (7::int) + int 3 \<le> 2 ^ 53 \<and>
   acquireNonce world7 = (Inr 7, world7\<lparr>NONCE_KEY := Some 8\<rparr>) \<and>
   acquireNonce_calls 3 world7 = ([Inr 7, Inr 8, Inr 9], world7\<lparr>NONCE_KEY := Some 10\<rparr>)"
proof -
  have h: "NONCE_KEY world7 = Some 7" by (simp add: world7_def)
  have lo: "- (2 ^ 53) \<le> (7::int)" by simp
  have hi: "(7::int) + int 3 \<le> 2 ^ 53" by simp
  have l: "[0..<3] = [0, 1, 2]" by (simp add: upt_rec)
  show ?thesis
    using h nonce_allocation_sequence [OF h lo hi] by (simp add: l)
qed

lemma nonce_repeats_beyond_2_53:
  "fst (acquireNonce_calls 2 (w\<lparr>NONCE_KEY := Some (2 ^ 53)\<rparr>)) = [Inr (2 ^ 53), Inr (2 ^ 53)]"
proof -
  have a: "acquireNonce (w\<lparr>NONCE_KEY := Some (2 ^ 53)\<rparr>) =
      (Inr (2 ^ 53), w\<lparr>NONCE_KEY := Some (2 ^ 53 + 1)\<rparr>)"
    using acquireNonce_exact [of "w\<lparr>NONCE_KEY := Some (2 ^ 53)\<rparr>" "2 ^ 53"] by simp
  have b: "acquireNonce (w\<lparr>NONCE_KEY := Some (2 ^ 53 + 1)\<rparr>) =
      (Inr (2 ^ 53), w\<lparr>NONCE_KEY := Some (2 ^ 53 + 2)\<rparr>)"
    using to_double_2_53_plus_1
    by (simp add: acquireNonce_def INT64_MIN_def INT64_MAX_def)
  have two: "(2::nat) = Suc (Suc 0)" by simp
  show ?thesis
    by (simp only: two acquireNonce_calls.simps a b Let_def prod.case fst_conv)
qed

lemma to_double_eq_small:
  assumes "\<bar>x\<bar> < 2 ^ 53"
  shows "(to_double c = x) = (c = x)"
proof (cases "\<bar>c\<bar> \<le> 2 ^ 53")
  case True
  then show ?thesis by (simp add: to_double_exact)
next
  case False
  then have "2 ^ 53 \<le> \<bar>to_double c\<bar>"
    by (intro to_double_big) simp
  with assms False show ?thesis by auto
qed

text \<open>
  Claim C3. For \<open>k\<close> with \<open>\<bar>k\<bar> + 1 < 2 ^ 53\<close> and any stored counter, \<open>reclaimNonce k\<close>
  decrements the counter exactly when the counter is \<open>k + 1\<close>; in every other state it
  is refused and changes nothing. After two allocations returning \<open>k\<close> and \<open>k + 1\<close>,
  \<open>reclaimNonce k\<close> is refused and the counter stays at \<open>k + 2\<close>.
\<close>

theorem reclaim_only_latest:
  assumes "\<bar>k\<bar> + 1 < 2 ^ 53"
  shows "reclaimNonce k w =
     (if NONCE_KEY w = Some (k + 1) then (Inr True, w\<lparr>NONCE_KEY := Some k\<rparr>)
      else (Inr False, w)) \<and>
   acquireNonce (w\<lparr>NONCE_KEY := Some k\<rparr>) = (Inr k, w\<lparr>NONCE_KEY := Some (k + 1)\<rparr>) \<and>
   acquireNonce (w\<lparr>NONCE_KEY := Some (k + 1)\<rparr>) = (Inr (k + 1), w\<lparr>NONCE_KEY := Some (k + 2)\<rparr>) \<and>
   reclaimNonce k (w\<lparr>NONCE_KEY := Some (k + 2)\<rparr>) = (Inr False, w\<lparr>NONCE_KEY := Some (k + 2)\<rparr>)"
proof -
  have k: "\<bar>k\<bar> \<le> 2 ^ 53" and k1: "\<bar>k + 1\<bar> \<le> 2 ^ 53" and k1': "\<bar>k + 1\<bar> < 2 ^ 53"
    using assms by linarith+
  have arg: "to_double (to_double k + 1) = k + 1"
    by (simp add: to_double_exact [OF k] to_double_exact [OF k1])
  have cmp: "\<And>c. (to_double c = k + 1) = (c = k + 1)"
    by (rule to_double_eq_small [OF k1'])
  have r: "\<And>w. reclaimNonce k w =
     (if NONCE_KEY w = Some (k + 1) then (Inr True, w\<lparr>NONCE_KEY := Some k\<rparr>)
      else (Inr False, w))"
    using int64_of_double_range [OF k1]
    by (auto simp: reclaimNonce_def arg cmp split: option.split)
  have a1: "acquireNonce (w\<lparr>NONCE_KEY := Some k\<rparr>) = (Inr k, w\<lparr>NONCE_KEY := Some (k + 1)\<rparr>)"
    using acquireNonce_exact [of "w\<lparr>NONCE_KEY := Some k\<rparr>" k, OF _ k] by simp
  have a2: "acquireNonce (w\<lparr>NONCE_KEY := Some (k + 1)\<rparr>) =
      (Inr (k + 1), w\<lparr>NONCE_KEY := Some (k + 2)\<rparr>)"
    using acquireNonce_exact [of "w\<lparr>NONCE_KEY := Some (k + 1)\<rparr>" "k + 1", OF _ k1]
    by (simp add: add.assoc)
  show ?thesis
    by (simp add: r a1 a2)
qed

theorem reclaim_only_latest_witness:
  "\<bar>7::int\<bar> + 1 < 2 ^ 53 \<and>
   reclaimNonce 7 (world7\<lparr>NONCE_KEY := Some 8\<rparr>) = (Inr True, world7) \<and>
   acquireNonce world7 = (Inr 7, world7\<lparr>NONCE_KEY := Some 8\<rparr>) \<and>
   acquireNonce (world7\<lparr>NONCE_KEY := Some 8\<rparr>) = (Inr 8, world7\<lparr>NONCE_KEY := Some 9\<rparr>) \<and>
   reclaimNonce 7 (world7\<lparr>NONCE_KEY := Some 9\<rparr>) = (Inr False, world7\<lparr>NONCE_KEY := Some 9\<rparr>)"
proof -
  have h: "\<bar>7::int\<bar> + 1 < 2 ^ 53" by simp
  have w: "world7\<lparr>NONCE_KEY := Some 7\<rparr> = world7" by (simp add: world7_def)
  show ?thesis
    using reclaim_only_latest [OF h, of "world7\<lparr>NONCE_KEY := Some 8\<rparr>"]
      reclaim_only_latest [OF h, of world7]
    by (simp add: w)
qed

lemma reclaim_beyond_2_53:
  "reclaimNonce (2 ^ 53) (w\<lparr>NONCE_KEY := Some (2 ^ 53)\<rparr>) =
     (Inr True, w\<lparr>NONCE_KEY := Some (2 ^ 53 - 1)\<rparr>)"
proof -
  have a: "to_double 9007199254740992 = 9007199254740992"
    by (rule to_double_exact) simp
  have b: "to_double 9007199254740993 = 9007199254740992"
    using to_double_2_53_plus_1 by simp
  show ?thesis
    by (simp add: reclaimNonce_def a b INT64_MIN_def INT64_MAX_def)
qed

text \<open>
  Claim C10. With no counter stored, \<open>acquireNonce\<close> fails: it returns an error and
  no nonce, and the store still has no counter.
\<close>

theorem acquire_uninitialized_fails:
  "NONCE_KEY w = None \<Longrightarrow>
     acquireNonce w = (Inl NonceNotInitialized, w) \<and> NONCE_KEY (snd (acquireNonce w)) = None"
  by (simp add: acquireNonce_def)

theorem acquire_uninitialized_fails_witness:
  "NONCE_KEY (world7\<lparr>NONCE_KEY := None\<rparr>) = None \<and>
   acquireNonce (world7\<lparr>NONCE_KEY := None\<rparr>) = (Inl NonceNotInitialized, world7\<lparr>NONCE_KEY := None\<rparr>)"
  using acquire_uninitialized_fails [of "world7\<lparr>NONCE_KEY := None\<rparr>"] by simp

section \<open>Transfer executor\<close>

text \<open>Whatever the state of the gas cache, a response lost after the broadcast ends in a reclaim.\<close>

lemma getGasPrice_NONCE_KEY:
  "getGasPrice e w = (r, w') \<Longrightarrow> NONCE_KEY w' = NONCE_KEY w"
  by (auto simp: getGasPrice_def Let_def split: option.splits sum.splits if_splits)

lemma sendTransaction_lost:
  "rpcSend e tx = ThrowsAfterBroadcast \<Longrightarrow>
     sendTransaction e tx w = (Inl SendResponseLost, w\<lparr>broadcast := broadcast w @ [tx]\<rparr>)"
  by (simp add: sendTransaction_def)

lemma reclaimNonce_latest:
  assumes "\<bar>k\<bar> + 1 < 2 ^ 53" and "NONCE_KEY w = Some (k + 1)"
  shows "reclaimNonce k w = (Inr True, w\<lparr>NONCE_KEY := Some k\<rparr>)"
proof -
  have k: "\<bar>k\<bar> \<le> 2 ^ 53" and k1: "\<bar>k + 1\<bar> \<le> 2 ^ 53"
    using assms(1) by linarith+
  show ?thesis
    using assms(2) int64_of_double_range [OF k1]
    by (simp add: reclaimNonce_def to_double_exact [OF k] to_double_exact [OF k1])
qed

lemma executePoolTransfer_reclaims_after_broadcast:
  assumes "relayerAccount e = Some account"
    and "NONCE_KEY w = Some k"
    and "\<bar>k\<bar> + 1 < 2 ^ 53"
    and "\<And>tx. rpcSend e tx = ThrowsAfterBroadcast"
    and "executePoolTransfer e a b c d w = (r, w')"
  shows "NONCE_KEY w' = Some k"
proof -
  have k: "\<bar>k\<bar> \<le> 2 ^ 53"
    using assms(3) by linarith
  have acq: "acquireNonce w = (Inr k, w\<lparr>NONCE_KEY := Some (k + 1)\<rparr>)"
    by (rule acquireNonce_exact [OF assms(2) k])
  obtain g w2 where g: "getGasPrice e (w\<lparr>NONCE_KEY := Some (k + 1)\<rparr>) = (g, w2)"
    by (cases "getGasPrice e (w\<lparr>NONCE_KEY := Some (k + 1)\<rparr>)")
  have n2: "NONCE_KEY w2 = Some (k + 1)"
    using getGasPrice_NONCE_KEY [OF g] by simp
  have rec: "\<And>x. reclaimNonce k (w2\<lparr>broadcast := x\<rparr>) = (Inr True, w2\<lparr>broadcast := x, NONCE_KEY := Some k\<rparr>)"
    using reclaimNonce_latest [OF assms(3), of "w2\<lparr>broadcast := x\<rparr>" for x] n2 by simp
  have rec2: "reclaimNonce k w2 = (Inr True, w2\<lparr>NONCE_KEY := Some k\<rparr>)"
    by (rule reclaimNonce_latest [OF assms(3) n2])
  show ?thesis
    using assms(1,5) g
    by (auto simp: executePoolTransfer_def acq rec rec2 Let_def
        sendTransaction_lost [OF assms(4)] split: sum.splits)
qed

lemma to_double_7: "to_double 7 = 7" "to_double 8 = 8"
  by (simp_all add: to_double_exact)

text \<open>
  Claim C2. The submission throws after the node has accepted the transaction
  (\<open>ThrowsAfterBroadcast\<close>), on a counter at 7. Both pool calls reclaim the nonce all
  the same: the transaction with nonce 7 is broadcast and the counter is back at 7.
\<close>

theorem reclaim_after_broadcast:
  "executePoolTransfer env_lost ''0xalice'' ''0xbob'' 100 ''ref'' world7 =
     (Inl SendResponseLost,
      world7\<lparr>GAS_PRICE_KEY := Some 50, GAS_PRICE_UPDATED_KEY := Some 1000,
             broadcast := [\<lparr>tx_account = ''0xrelayer'', tx_to = ''0xpool'',
                            tx_data = PoolTransfer ''0xalice'' ''0xbob'' 100 ''ref'',
                            tx_gas = 120, tx_gasPrice = 50, tx_nonce = 7\<rparr>]\<rparr>) \<and>
   executePoolWithdraw env_lost ''0xalice'' ''0xalice'' 100 world7 =
     (Inl SendResponseLost,
      world7\<lparr>GAS_PRICE_KEY := Some 50, GAS_PRICE_UPDATED_KEY := Some 1000,
             broadcast := [\<lparr>tx_account = ''0xrelayer'', tx_to = ''0xpool'',
                            tx_data = PoolWithdraw ''0xalice'' ''0xalice'' 100,
                            tx_gas = 120, tx_gasPrice = 50, tx_nonce = 7\<rparr>]\<rparr>) \<and>
   NONCE_KEY world7 = Some 7 \<and>
   NONCE_KEY (snd (executePoolTransfer env_lost ''0xalice'' ''0xbob'' 100 ''ref'' world7)) = Some 7 \<and>
   NONCE_KEY (snd (executePoolWithdraw env_lost ''0xalice'' ''0xalice'' 100 world7)) = Some 7"
  by (simp add: executePoolTransfer_def executePoolWithdraw_def acquireNonce_def reclaimNonce_def
      getGasPrice_def sendTransaction_def addGasBuffer_def bigint_div_def to_double_7
      INT64_MIN_def INT64_MAX_def env_lost_def env_ok_def world7_def)

section \<open>Gas buffer\<close>

lemma addGasBuffer_nonneg: "0 \<le> g \<Longrightarrow> addGasBuffer g = g * 120 div 100"
  by (simp add: addGasBuffer_def bigint_div_def sgn_if)

text \<open>
  Claim C9. For a non-negative estimate \<open>g\<close>, \<open>addGasBuffer g\<close> is the floor of
  \<open>g * 120 / 100\<close>; \<open>addGasBuffer 100 = 120\<close> and \<open>addGasBuffer 1 = 1\<close>.
\<close>

theorem gas_buffer_floor:
  "0 \<le> g \<Longrightarrow>
     addGasBuffer g = \<lfloor>real_of_int g * 120 / 100\<rfloor> \<and> addGasBuffer 100 = 120 \<and> addGasBuffer 1 = 1"
proof (intro conjI)
  assume g: "0 \<le> g"
  have "\<lfloor>real_of_int g * 120 / 100\<rfloor> = \<lfloor>real_of_int (g * 120) / real_of_int 100\<rfloor>"
    by simp
  also have "\<dots> = g * 120 div 100"
    by (rule floor_divide_of_int_eq)
  finally show "addGasBuffer g = \<lfloor>real_of_int g * 120 / 100\<rfloor>"
    using g by (simp add: addGasBuffer_nonneg)
  show "addGasBuffer 100 = 120" by (simp add: addGasBuffer_def bigint_div_def)
  show "addGasBuffer 1 = 1" by (simp add: addGasBuffer_def bigint_div_def)
qed

theorem gas_buffer_floor_witness:
  "(0::int) \<le> 7 \<and> addGasBuffer 7 = 8 \<and> addGasBuffer 7 = \<lfloor>real_of_int 7 * 120 / 100\<rfloor>"
  using gas_buffer_floor [of 7] by (simp add: addGasBuffer_def bigint_div_def)

section \<open>Ledger and confirmation\<close>

lemma find_map_by_id:
  assumes "\<And>r. row_id (f r) = row_id r"
  shows "find (\<lambda>r. row_id r = ident) (map (\<lambda>r. if row_id r = ident then f r else r) xs) =
         map_option f (find (\<lambda>r. row_id r = ident) xs)"
  by (induction xs) (simp_all add: assms)

lemma find_Some_list_ex: "find p xs = Some r \<Longrightarrow> list_ex p xs"
  by (induction xs) (auto split: if_splits)

lemma update_found:
  assumes "findUnique (\<lambda>r. row_id r = ident) w = Some r"
  shows "update ident f w =
           (Inr (), w\<lparr>transactions := map (\<lambda>r. if row_id r = ident then f r else r) (transactions w)\<rparr>)"
  using find_Some_list_ex [of "\<lambda>r. row_id r = ident" "transactions w" r] assms
  by (simp add: update_def findUnique_def)

lemma findUnique_updated:
  assumes "\<And>r. row_id (f r) = row_id r"
  shows "findUnique (\<lambda>r. row_id r = ident)
           (w\<lparr>transactions := map (\<lambda>r. if row_id r = ident then f r else r) (transactions w)\<rparr>) =
         map_option f (findUnique (\<lambda>r. row_id r = ident) w)"
  by (simp add: findUnique_def find_map_by_id [of f, OF assms])

lemma row1_found: "findUnique (\<lambda>r. row_id r = ''t1'') ledger1 = Some row1"
  by (simp add: findUnique_def ledger1_def row1_def)

text \<open>
  Claim C7. For the record \<open>r\<close> with the given id: with no receipt available
  \<open>confirmTransaction\<close> reports \<open>pending\<close> and changes nothing; with a success
  receipt it reports \<open>confirmed\<close> and the record gets status \<open>confirmed\<close>, the gas used,
  the gas price, the block number and the confirmation time; with a reverted receipt
  it reports \<open>failed\<close> and the record gets status \<open>failed\<close>, the detail
  \<open>Transaction reverted on-chain\<close>, the gas used and the block number.
\<close>

theorem confirm_maps_receipt:
  assumes "findUnique (\<lambda>r. row_id r = transactionId) w = Some r"
  shows "(rpcReceipt e h = Inl err \<longrightarrow> confirmTransaction e h transactionId w = (pending, w)) \<and>
         (rpcReceipt e h = Inr rc \<and> rc_status rc = success \<longrightarrow>
            fst (confirmTransaction e h transactionId w) = confirmed \<and>
            findUnique (\<lambda>r. row_id r = transactionId) (snd (confirmTransaction e h transactionId w)) =
              Some (r\<lparr>status := confirmed, gasUsed := Some (rc_gasUsed rc),
                      gasPrice := Some (rc_effectiveGasPrice rc),
                      blockNumber := Some (rc_blockNumber rc), confirmedAt := Some (now e)\<rparr>)) \<and>
         (rpcReceipt e h = Inr rc \<and> rc_status rc = reverted \<longrightarrow>
            fst (confirmTransaction e h transactionId w) = failed \<and>
            findUnique (\<lambda>r. row_id r = transactionId) (snd (confirmTransaction e h transactionId w)) =
              Some (r\<lparr>status := failed, errorMessage := Some ''Transaction reverted on-chain'',
                      gasUsed := Some (rc_gasUsed rc), blockNumber := Some (rc_blockNumber rc)\<rparr>))"
proof (intro conjI impI)
  assume "rpcReceipt e h = Inl err"
  then show "confirmTransaction e h transactionId w = (pending, w)"
    by (simp add: confirmTransaction_def)
next
  let ?f = "\<lambda>r. r\<lparr>status := confirmed, gasUsed := Some (rc_gasUsed rc),
                      gasPrice := Some (rc_effectiveGasPrice rc),
                      blockNumber := Some (rc_blockNumber rc), confirmedAt := Some (now e)\<rparr>"
  let ?w' = "w\<lparr>transactions := map (\<lambda>r. if row_id r = transactionId then ?f r else r) (transactions w)\<rparr>"
  assume rc: "rpcReceipt e h = Inr rc \<and> rc_status rc = success"
  have c: "confirmTransaction e h transactionId w = (confirmed, ?w')"
    using rc by (simp add: confirmTransaction_def update_found [OF assms])
  show "fst (confirmTransaction e h transactionId w) = confirmed"
    by (simp add: c)
  have "findUnique (\<lambda>r. row_id r = transactionId) ?w' = map_option ?f (findUnique (\<lambda>r. row_id r = transactionId) w)"
    by (rule findUnique_updated) simp
  then show "findUnique (\<lambda>r. row_id r = transactionId) (snd (confirmTransaction e h transactionId w)) = Some (?f r)"
    by (simp add: c assms)
next
  let ?f = "\<lambda>r. r\<lparr>status := failed, errorMessage := Some ''Transaction reverted on-chain'',
                      gasUsed := Some (rc_gasUsed rc), blockNumber := Some (rc_blockNumber rc)\<rparr>"
  let ?w' = "w\<lparr>transactions := map (\<lambda>r. if row_id r = transactionId then ?f r else r) (transactions w)\<rparr>"
  assume rc: "rpcReceipt e h = Inr rc \<and> rc_status rc = reverted"
  have c: "confirmTransaction e h transactionId w = (failed, ?w')"
    using rc by (simp add: confirmTransaction_def update_found [OF assms])
  show "fst (confirmTransaction e h transactionId w) = failed"
    by (simp add: c)
  have "findUnique (\<lambda>r. row_id r = transactionId) ?w' = map_option ?f (findUnique (\<lambda>r. row_id r = transactionId) w)"
    by (rule findUnique_updated) simp
  then show "findUnique (\<lambda>r. row_id r = transactionId) (snd (confirmTransaction e h transactionId w)) = Some (?f r)"
    by (simp add: c assms)
qed

theorem confirm_maps_receipt_witness:
  "findUnique (\<lambda>r. row_id r = ''t1'') ledger1 = Some row1 \<and>
   rpcReceipt env_ok ''0xaa'' = Inl ReceiptNotFound \<and>
   confirmTransaction env_ok ''0xaa'' ''t1'' ledger1 = (pending, ledger1) \<and>
   rpcReceipt env_mined ''0xaa'' = Inr receipt_ok \<and> rc_status receipt_ok = success \<and>
   fst (confirmTransaction env_mined ''0xaa'' ''t1'' ledger1) = confirmed \<and>
   findUnique (\<lambda>r. row_id r = ''t1'') (snd (confirmTransaction env_mined ''0xaa'' ''t1'' ledger1)) =
     Some (row1\<lparr>status := confirmed, gasUsed := Some 21000, gasPrice := Some 50,
                 blockNumber := Some 12, confirmedAt := Some 1000\<rparr>) \<and>
   rpcReceipt env_reverted ''0xaa'' = Inr (receipt_ok\<lparr>rc_status := reverted\<rparr>) \<and>
   fst (confirmTransaction env_reverted ''0xaa'' ''t1'' ledger1) = failed \<and>
   findUnique (\<lambda>r. row_id r = ''t1'') (snd (confirmTransaction env_reverted ''0xaa'' ''t1'' ledger1)) =
     Some (row1\<lparr>status := failed, errorMessage := Some ''Transaction reverted on-chain'',
                 gasUsed := Some 21000, blockNumber := Some 12\<rparr>)"
proof -
  have a: "rpcReceipt env_ok ''0xaa'' = Inl ReceiptNotFound"
    by (simp add: env_ok_def)
  have b: "rpcReceipt env_mined ''0xaa'' = Inr receipt_ok \<and> rc_status receipt_ok = success"
    by (simp add: env_mined_def env_ok_def receipt_ok_def)
  have c: "rpcReceipt env_reverted ''0xaa'' = Inr (receipt_ok\<lparr>rc_status := reverted\<rparr>) \<and>
           rc_status (receipt_ok\<lparr>rc_status := reverted\<rparr>) = reverted"
    by (simp add: env_reverted_def env_ok_def)
  have n: "now env_mined = 1000" "now env_reverted = 1000"
    by (simp_all add: env_mined_def env_reverted_def env_ok_def)
  have r: "rc_gasUsed receipt_ok = 21000" "rc_effectiveGasPrice receipt_ok = 50" "rc_blockNumber receipt_ok = 12"
    by (simp_all add: receipt_ok_def)
  show ?thesis
    using confirm_maps_receipt [OF row1_found, of env_ok "''0xaa''" ReceiptNotFound receipt_ok]
      confirm_maps_receipt [OF row1_found, of env_mined "''0xaa''" ReceiptNotFound receipt_ok]
      confirm_maps_receipt [OF row1_found, of env_reverted "''0xaa''" ReceiptNotFound "receipt_ok\<lparr>rc_status := reverted\<rparr>"]
    by (simp add: a b c n r row1_found)
qed

section \<open>Confirmation poller\<close>

lemma processor_still_pending:
  "rpcReceipt e (c_txHash job) = Inl err \<Longrightarrow> txConfirmProcessor e job w = (Inl StillPending, w)"
  by (simp add: txConfirmProcessor_def confirmTransaction_def)

lemma onFailed_early: "n < 20 \<Longrightarrow> onFailed job n w = w"
  by (simp add: onFailed_def)

lemma runConfirmJob_absent:
  assumes "\<forall>e\<in>set es. isl (rpcReceipt e (c_txHash job))"
  shows "made + length es < 20 \<Longrightarrow> runConfirmJob job made es w = w"
    and "made + length es = 20 \<Longrightarrow> es \<noteq> [] \<Longrightarrow> runConfirmJob job made es w = onFailed job 20 w"
  using assms
proof (induction es arbitrary: made)
  case Nil
  { case 1 then show ?case by simp }
  { case 2 then show ?case by simp }
next
  case (Cons e es)
  { case 1
    from 1 obtain err where err: "rpcReceipt e (c_txHash job) = Inl err"
      by (auto simp: isl_def)
    from 1 have all: "\<forall>e\<in>set es. isl (rpcReceipt e (c_txHash job))" by simp
    from 1 have lt: "Suc made + length es < 20" by simp
    show ?case
      using Cons.IH(1) [OF lt all] lt
      by (simp add: processor_still_pending [OF err] onFailed_early confirm_attempts_def Let_def) }
  { case 2
    from 2 obtain err where err: "rpcReceipt e (c_txHash job) = Inl err"
      by (auto simp: isl_def)
    from 2 have all: "\<forall>e\<in>set es. isl (rpcReceipt e (c_txHash job))" by simp
    show ?case
    proof (cases es)
      case Nil
      with 2 have "Suc made = 20" by simp
      then show ?thesis
        using Nil by (simp add: processor_still_pending [OF err] confirm_attempts_def Let_def)
    next
      case (Cons e' es')
      with 2 have eq: "Suc made + length es = 20" and ne: "es \<noteq> []" and lt: "Suc made < 20"
        by simp_all
      show ?thesis
        using Cons.IH(2) [OF eq ne all] lt
        by (simp add: processor_still_pending [OF err] onFailed_early confirm_attempts_def Let_def)
    qed }
qed

text \<open>
  Claim C8. A confirm job whose twenty deliveries all find no receipt, on a record that
  is \<open>pending\<close>: after the twentieth failed attempt the record has status \<open>expired\<close>
  and the detail \<open>Confirmation timed out\<close>, which is not \<open>failed\<close>; after fewer
  attempts nothing has changed.
\<close>

theorem budget_exhausted_expires:
  assumes "length es = confirm_attempts"
    and "\<forall>e\<in>set es. isl (rpcReceipt e (c_txHash job))"
    and "findUnique (\<lambda>r. row_id r = c_transactionId job) w = Some r"
    and "status r = pending"
  shows "findUnique (\<lambda>r. row_id r = c_transactionId job) (runConfirmJob job 0 es w) =
           Some (r\<lparr>status := expired, errorMessage := Some ''Confirmation timed out''\<rparr>) \<and>
         status (r\<lparr>status := expired, errorMessage := Some ''Confirmation timed out''\<rparr>) \<noteq> failed \<and>
         (\<forall>k<confirm_attempts. runConfirmJob job 0 (take k es) w = w)"
proof (intro conjI allI impI)
  let ?f = "\<lambda>r. r\<lparr>status := expired, errorMessage := Some ''Confirmation timed out''\<rparr>"
  have len: "0 + length es = 20" and ne: "es \<noteq> []"
    using assms(1) by (auto simp: confirm_attempts_def)
  have run: "runConfirmJob job 0 es w = onFailed job 20 w"
    by (rule runConfirmJob_absent(2) [OF assms(2) len ne])
  have upd: "onFailed job 20 w =
      w\<lparr>transactions := map (\<lambda>r. if row_id r = c_transactionId job then ?f r else r) (transactions w)\<rparr>"
    by (simp add: onFailed_def update_found [OF assms(3)])
  have "findUnique (\<lambda>r. row_id r = c_transactionId job) (onFailed job 20 w) =
      map_option ?f (findUnique (\<lambda>r. row_id r = c_transactionId job) w)"
    unfolding upd by (rule findUnique_updated) simp
  then show "findUnique (\<lambda>r. row_id r = c_transactionId job) (runConfirmJob job 0 es w) = Some (?f r)"
    by (simp add: run assms(3))
  show "status (?f r) \<noteq> failed" by simp
next
  fix k assume k: "k < confirm_attempts"
  have all: "\<forall>e\<in>set (take k es). isl (rpcReceipt e (c_txHash job))"
    using assms(2) by (auto dest: in_set_takeD)
  have "0 + length (take k es) < 20"
    using k assms(1) by (simp add: confirm_attempts_def)
  then show "runConfirmJob job 0 (take k es) w = w"
    by (rule runConfirmJob_absent(1) [OF all])
qed

lemma confirm1_row: "findUnique (\<lambda>r. row_id r = c_transactionId confirm1) ledger1 = Some row1"
  by (simp add: confirm1_def row1_found)

theorem budget_exhausted_expires_witness:
  "length (replicate 20 env_ok) = confirm_attempts \<and>
   list_all (\<lambda>e. isl (rpcReceipt e (c_txHash confirm1))) (replicate 20 env_ok) \<and>
   findUnique (\<lambda>r. row_id r = c_transactionId confirm1) ledger1 = Some row1 \<and>
   status row1 = pending \<and>
   findUnique (\<lambda>r. row_id r = ''t1'') (runConfirmJob confirm1 0 (replicate 20 env_ok) ledger1) =
     Some (row1\<lparr>status := expired, errorMessage := Some ''Confirmation timed out''\<rparr>) \<and>
   runConfirmJob confirm1 0 (replicate 19 env_ok) ledger1 = ledger1"
proof -
  have a: "length (replicate 20 env_ok) = confirm_attempts"
    by (simp add: confirm_attempts_def)
  have b: "\<forall>e\<in>set (replicate 20 env_ok). isl (rpcReceipt e (c_txHash confirm1))"
    by (simp add: env_ok_def)
  have c: "status row1 = pending"
    by (simp add: row1_def)
  have t: "take 19 (replicate 20 env_ok) = replicate 19 env_ok"
    by simp
  have id: "c_transactionId confirm1 = ''t1''"
    by (simp add: confirm1_def)
  have k: "(19::nat) < confirm_attempts"
    by (simp add: confirm_attempts_def)
  from budget_exhausted_expires [OF a b confirm1_row c]
  have main: "findUnique (\<lambda>r. row_id r = c_transactionId confirm1) (runConfirmJob confirm1 0 (replicate 20 env_ok) ledger1) =
           Some (row1\<lparr>status := expired, errorMessage := Some ''Confirmation timed out''\<rparr>)"
    and early: "\<forall>k<confirm_attempts. runConfirmJob confirm1 0 (take k (replicate 20 env_ok)) ledger1 = ledger1"
    by blast+
  from early k have "runConfirmJob confirm1 0 (take 19 (replicate 20 env_ok)) ledger1 = ledger1"
    by blast
  then show ?thesis
    using a b confirm1_row c main by (simp add: id list_all_iff)
qed

section \<open>Ledger recorder\<close>

text \<open>A second job with the key of a queued one is not added to the submit queue.\<close>

lemma enqueueTxSubmit_duplicate:
  "j_idempotencyKey job' = j_idempotencyKey job \<Longrightarrow>
     enqueueTxSubmit job' (enqueueTxSubmit job w) = enqueueTxSubmit job w"
  by (auto simp: enqueueTxSubmit_def list_ex_iff)

lemma acquireNonce_transactions:
  "acquireNonce w = (r, w') \<Longrightarrow> transactions w' = transactions w"
  by (auto simp: acquireNonce_def split: option.splits if_splits)

lemma reclaimNonce_transactions:
  "reclaimNonce n w = (r, w') \<Longrightarrow> transactions w' = transactions w"
  by (auto simp: reclaimNonce_def split: option.splits if_splits)

lemma getGasPrice_transactions:
  "getGasPrice e w = (r, w') \<Longrightarrow> transactions w' = transactions w"
  by (auto simp: getGasPrice_def Let_def split: option.splits sum.splits if_splits)

lemma sendTransaction_transactions:
  "sendTransaction e tx w = (r, w') \<Longrightarrow> transactions w' = transactions w"
  by (auto simp: sendTransaction_def split: send_outcome.splits)

lemma executePoolTransfer_transactions:
  assumes "executePoolTransfer e a b c d w = (r, w')"
  shows "transactions w' = transactions w"
proof (cases "relayerAccount e")
  case None
  then show ?thesis using assms by (simp add: executePoolTransfer_def)
next
  case (Some account)
  obtain res w1 where acq: "acquireNonce w = (res, w1)"
    by (cases "acquireNonce w")
  note w1 = acquireNonce_transactions [OF acq]
  show ?thesis
  proof (cases res)
    case (Inl err)
    then show ?thesis using assms Some acq w1 by (simp add: executePoolTransfer_def)
  next
    case (Inr nonce)
    obtain g w2 where g: "getGasPrice e w1 = (g, w2)"
      by (cases "getGasPrice e w1")
    note w2 = getGasPrice_transactions [OF g]
    show ?thesis
      using assms Some acq Inr g w2 w1
      by (auto simp: executePoolTransfer_def Let_def
          split: sum.splits prod.splits
          dest!: sendTransaction_transactions reclaimNonce_transactions)
  qed
qed

lemma create_result:
  assumes "create row w = (res, w1)"
  shows "(res = Inl UniqueConstraintFailed \<and> w1 = w) \<or>
         (res = Inr row \<and> transactions w1 = transactions w @ [row] \<and>
          \<not> list_ex (\<lambda>r. row_id r = row_id row) (transactions w))"
  using assms by (auto simp: create_def list_ex_iff split: if_splits)

lemma update_last:
  assumes "\<not> list_ex (\<lambda>r. row_id r = ident) xs"
    and "transactions w = xs @ [row]"
    and "row_id row = ident"
    and "update ident f w = (res, w')"
  shows "res = Inr () \<and> transactions w' = xs @ [f row]"
proof -
  have "map (\<lambda>r. if row_id r = ident then f r else r) xs = xs"
    using assms(1) by (induction xs) auto
  then show ?thesis
    using assms by (auto simp: update_def split: if_splits)
qed

lemma processTransfer_cached:
  "findUnique (\<lambda>r. idempotencyKey r = Some (j_idempotencyKey job)) w = Some existing \<Longrightarrow>
     processTransfer e job w =
       (Inr \<lparr>r_refId = refId existing, r_txHash = txHash existing, r_status = status existing,
             r_amount = numberToString e (amount existing), r_currency = currency existing\<rparr>, w)"
  by (simp add: processTransfer_def)

lemma processTransfer_fresh:
  assumes absent: "findUnique (\<lambda>r. idempotencyKey r = Some (j_idempotencyKey job)) w = None"
    and run: "processTransfer e job w = (res, w')"
  shows "(isl res \<and> transactions w' = transactions w) \<or>
         (\<exists>row amountWei.
            transactions w' = transactions w @ [row] \<and>
            row_id row = newId e \<and> refId row = j_refId job \<and>
            idempotencyKey row = Some (j_idempotencyKey job) \<and>
            currency row = ''MON'' \<and>
            amount row = parseFloat e (formatEther e amountWei) \<and>
            (case res of
               Inl err \<Rightarrow> status row = failed \<and> txHash row = None
             | Inr result \<Rightarrow>
                 status row = pending \<and> txHash row \<noteq> None \<and>
                 result = \<lparr>r_refId = j_refId job, r_txHash = txHash row, r_status = pending,
                           r_amount = formatEther e amountWei, r_currency = ''MON''\<rparr>))"
proof (cases "decryptWalletAddress e (j_senderUserId job)")
  case (Inl err)
  then show ?thesis using absent run by (auto simp: processTransfer_def)
next
  case s: (Inr senderAddress)
  show ?thesis
  proof (cases "decryptWalletAddress e (j_recipientUserId job)")
    case (Inl err)
    then show ?thesis using absent run s by (auto simp: processTransfer_def)
  next
    case r: (Inr recipientAddress)
    show ?thesis
    proof (cases "BigInt e (j_amount job)")
      case (Inl err)
      then show ?thesis using absent run s r by (auto simp: processTransfer_def)
    next
      case a: (Inr amountWei)
      let ?row = "\<lparr>row_id = newId e, senderId = j_senderUserId job,
                   recipientId = j_recipientUserId job,
                   amount = parseFloat e (formatEther e amountWei),
                   currency = ''MON'', txType = ''transfer'', refId = j_refId job,
                   status = pending, idempotencyKey = Some (j_idempotencyKey job),
                   txHash = None, errorMessage = None, gasUsed = None, gasPrice = None,
                   blockNumber = None, confirmedAt = None\<rparr>"
      obtain cres w1 where c: "create ?row w = (cres, w1)"
        by (cases "create ?row w")
      from create_result [OF c] show ?thesis
      proof
        assume "cres = Inl UniqueConstraintFailed \<and> w1 = w"
        then show ?thesis using absent run s r a c by (auto simp: processTransfer_def)
      next
        assume ok: "cres = Inr ?row \<and> transactions w1 = transactions w @ [?row] \<and>
          \<not> list_ex (\<lambda>r. row_id r = row_id ?row) (transactions w)"
        then have fresh: "\<not> list_ex (\<lambda>r. row_id r = newId e) (transactions w)" by simp
        obtain xres w2 where x: "executePoolTransfer e senderAddress recipientAddress amountWei
              (keccak256 e (j_refId job)) w1 = (xres, w2)"
          by (cases "executePoolTransfer e senderAddress recipientAddress amountWei
              (keccak256 e (j_refId job)) w1")
        have w2: "transactions w2 = transactions w @ [?row]"
          using executePoolTransfer_transactions [OF x] ok by simp
        show ?thesis
        proof (cases xres)
          case (Inl err)
          obtain mres w5 where m: "update (newId e)
              (\<lambda>r. r\<lparr>status := failed, errorMessage := Some (message e err)\<rparr>) w2 = (mres, w5)"
            by (cases "update (newId e)
              (\<lambda>r. r\<lparr>status := failed, errorMessage := Some (message e err)\<rparr>) w2")
          have "mres = Inr () \<and> transactions w5 =
              transactions w @ [?row\<lparr>status := failed, errorMessage := Some (message e err)\<rparr>]"
            using update_last [OF fresh w2 _ m] by simp
          then show ?thesis
            using absent run s r a c ok x Inl m
            by (auto simp: processTransfer_def Let_def)
        next
          case (Inr h)
          obtain ares w3 where at: "update (newId e) (\<lambda>r. r\<lparr>txHash := Some h\<rparr>) w2 = (ares, w3)"
            by (cases "update (newId e) (\<lambda>r. r\<lparr>txHash := Some h\<rparr>) w2")
          have "ares = Inr () \<and> transactions w3 = transactions w @ [?row\<lparr>txHash := Some h\<rparr>]"
            using update_last [OF fresh w2 _ at] by simp
          then show ?thesis
            using absent run s r a c ok x Inr at
            by (auto simp: processTransfer_def Let_def)
        qed
      qed
    qed
  qed
qed

lemma find_append_last: "find p xs = None \<Longrightarrow> p x \<Longrightarrow> find p (xs @ [x]) = Some x"
  by (induction xs) (auto split: if_splits)

lemma filter_append_last: "find p xs = None \<Longrightarrow> p x \<Longrightarrow> filter p (xs @ [x]) = [x]"
  by (induction xs) (auto split: if_splits)

lemma find_None_same: "find p xs = None \<Longrightarrow> find p ys = Some r \<Longrightarrow> xs \<noteq> ys"
  by auto

lemma first_transfer:
  "processTransfer env_ok job1 world7 =
     (Inr \<lparr>r_refId = ''ref-1'', r_txHash = Some ''0xaa'', r_status = pending,
           r_amount = ''0.0000000000000001'', r_currency = ''MON''\<rparr>,
      world7\<lparr>NONCE_KEY := Some 8, GAS_PRICE_KEY := Some 50, GAS_PRICE_UPDATED_KEY := Some 1000,
             transactions := [row1],
             broadcast := [\<lparr>tx_account = ''0xrelayer'', tx_to = ''0xpool'',
                            tx_data = PoolTransfer ''alice'' ''bob'' 100 ''ref-1'',
                            tx_gas = 120, tx_gasPrice = 50, tx_nonce = 7\<rparr>]\<rparr>)"
  by (simp add: processTransfer_def findUnique_def decryptWalletAddress_def create_def
      executePoolTransfer_def acquireNonce_def getGasPrice_def sendTransaction_def
      addGasBuffer_def bigint_div_def update_def to_double_7 INT64_MIN_def INT64_MAX_def
      env_ok_def job1_def world7_def row1_def)

text \<open>
  Claim C4, as stated, fails in its last part: the two calls do not yield the same
  result. A first call for 100 wei returns the amount as \<^verbatim>\<open>formatEther\<close> prints it,
  \<^verbatim>\<open>0.0000000000000001\<close>; the second call with the same key returns the stored double
  printed, \<^verbatim>\<open>1e-16\<close>.
\<close>

theorem replay_result_differs:
  "j_idempotencyKey job2 = j_idempotencyKey job1 \<and>
   fst (processTransfer env_ok job1 world7) =
     Inr \<lparr>r_refId = ''ref-1'', r_txHash = Some ''0xaa'', r_status = pending,
          r_amount = ''0.0000000000000001'', r_currency = ''MON''\<rparr> \<and>
   fst (processTransfer env_next job2 (snd (processTransfer env_ok job1 world7))) =
     Inr \<lparr>r_refId = ''ref-1'', r_txHash = Some ''0xaa'', r_status = pending,
          r_amount = ''1e-16'', r_currency = ''MON''\<rparr> \<and>
   fst (processTransfer env_next job2 (snd (processTransfer env_ok job1 world7))) \<noteq>
     fst (processTransfer env_ok job1 world7)"
  by (simp add: first_transfer) (simp add: processTransfer_def findUnique_def
      env_next_def env_ok_def job2_def job1_def row1_def)

text \<open>
  Claim C4, amended. When a record with the job's idempotency key exists,
  \<open>processTransfer\<close> returns that record's reference id, transaction hash, status and
  currency and its stored amount printed, and leaves every store as it was: no record
  is created, no nonce is taken and nothing is submitted. When the key is new and the
  first call gets as far as creating the record, exactly one record holds the key
  afterwards, it carries the first job's reference id, and a second call with the same
  key (whatever its reference id and environment) returns that record and changes
  nothing. After a successful first call the second result agrees with the first on
  reference id, transaction hash, status (\<open>pending\<close>) and currency, and its amount is
  the printed double that \<^verbatim>\<open>parseFloat\<close> makes of the first result's amount text; after
  a first call that failed, the record returned is the \<open>failed\<close> one, without a hash.
\<close>

theorem idempotent_replay:
  "(findUnique (\<lambda>r. idempotencyKey r = Some (j_idempotencyKey job)) w = Some existing \<longrightarrow>
      processTransfer e job w =
        (Inr \<lparr>r_refId = refId existing, r_txHash = txHash existing, r_status = status existing,
              r_amount = numberToString e (amount existing), r_currency = currency existing\<rparr>, w)) \<and>
   (findUnique (\<lambda>r. idempotencyKey r = Some (j_idempotencyKey job)) w = None \<and>
    processTransfer e job w = (res, w1) \<and>
    findUnique (\<lambda>r. idempotencyKey r = Some (j_idempotencyKey job)) w1 = Some r \<and>
    j_idempotencyKey job' = j_idempotencyKey job \<longrightarrow>
      filter (\<lambda>r. idempotencyKey r = Some (j_idempotencyKey job)) (transactions w1) = [r] \<and>
      refId r = j_refId job \<and>
      processTransfer e' job' w1 =
        (Inr \<lparr>r_refId = j_refId job, r_txHash = txHash r, r_status = status r,
              r_amount = numberToString e' (amount r), r_currency = ''MON''\<rparr>, w1) \<and>
      (case res of
         Inr result \<Rightarrow>
           r_refId result = j_refId job \<and> r_txHash result = txHash r \<and>
           r_status result = status r \<and> status r = pending \<and> r_currency result = ''MON'' \<and>
           amount r = parseFloat e (r_amount result)
       | Inl err \<Rightarrow> status r = failed \<and> txHash r = None))"
proof (intro conjI impI)
  assume "findUnique (\<lambda>r. idempotencyKey r = Some (j_idempotencyKey job)) w = Some existing"
  then show "processTransfer e job w =
        (Inr \<lparr>r_refId = refId existing, r_txHash = txHash existing, r_status = status existing,
              r_amount = numberToString e (amount existing), r_currency = currency existing\<rparr>, w)"
    by (rule processTransfer_cached)
next
  let ?p = "\<lambda>r. idempotencyKey r = Some (j_idempotencyKey job)"
  assume h: "findUnique ?p w = None \<and> processTransfer e job w = (res, w1) \<and>
    findUnique ?p w1 = Some r \<and> j_idempotencyKey job' = j_idempotencyKey job"
  then have absent: "findUnique ?p w = None" and run: "processTransfer e job w = (res, w1)"
    and found: "findUnique ?p w1 = Some r"
    and same: "j_idempotencyKey job' = j_idempotencyKey job"
    by simp_all
  have none: "find ?p (transactions w) = None"
    using absent by (simp add: findUnique_def)
  have changed: "transactions w1 \<noteq> transactions w"
    using none found by (auto simp: findUnique_def)
  from processTransfer_fresh [OF absent run] changed
  obtain row amountWei where rows: "transactions w1 = transactions w @ [row]"
    and key: "idempotencyKey row = Some (j_idempotencyKey job)"
    and ref: "refId row = j_refId job"
    and cur: "currency row = ''MON''"
    and amt: "amount row = parseFloat e (formatEther e amountWei)"
    and out: "case res of
               Inl err \<Rightarrow> status row = failed \<and> txHash row = None
             | Inr result \<Rightarrow>
                 status row = pending \<and> txHash row \<noteq> None \<and>
                 result = \<lparr>r_refId = j_refId job, r_txHash = txHash row, r_status = pending,
                           r_amount = formatEther e amountWei, r_currency = ''MON''\<rparr>"
    by auto
  have "findUnique ?p w1 = Some row"
    using find_append_last [of ?p "transactions w" row] none key
    by (simp add: findUnique_def rows)
  with found have r: "r = row" by simp
  have found': "findUnique (\<lambda>r. idempotencyKey r = Some (j_idempotencyKey job')) w1 = Some r"
    using found by (simp add: same)
  show "filter ?p (transactions w1) = [r]"
    using filter_append_last [of ?p "transactions w" row] none key by (simp add: rows r)
  show "refId r = j_refId job"
    by (simp add: r ref)
  show "processTransfer e' job' w1 =
        (Inr \<lparr>r_refId = j_refId job, r_txHash = txHash r, r_status = status r,
              r_amount = numberToString e' (amount r), r_currency = ''MON''\<rparr>, w1)"
    using processTransfer_cached [OF found', of e'] by (simp add: r ref cur)
  show "case res of
         Inr result \<Rightarrow>
           r_refId result = j_refId job \<and> r_txHash result = txHash r \<and>
           r_status result = status r \<and> status r = pending \<and> r_currency result = ''MON'' \<and>
           amount r = parseFloat e (r_amount result)
       | Inl err \<Rightarrow> status r = failed \<and> txHash r = None"
    using out amt by (cases res) (simp_all add: r)
qed

theorem idempotent_replay_witness:
  "findUnique (\<lambda>r. idempotencyKey r = Some (j_idempotencyKey job2)) ledger1 = Some row1 \<and>
   processTransfer env_next job2 ledger1 =
     (Inr \<lparr>r_refId = ''ref-1'', r_txHash = Some ''0xaa'', r_status = pending,
           r_amount = ''1e-16'', r_currency = ''MON''\<rparr>, ledger1) \<and>
   findUnique (\<lambda>r. idempotencyKey r = Some (j_idempotencyKey job1)) world7 = None \<and>
   j_idempotencyKey job2 = j_idempotencyKey job1 \<and> j_refId job2 \<noteq> j_refId job1 \<and>
   findUnique (\<lambda>r. idempotencyKey r = Some (j_idempotencyKey job1))
     (snd (processTransfer env_ok job1 world7)) = Some row1 \<and>
   filter (\<lambda>r. idempotencyKey r = Some (j_idempotencyKey job1))
     (transactions (snd (processTransfer env_ok job1 world7))) = [row1] \<and>
   processTransfer env_next job2 (snd (processTransfer env_ok job1 world7)) =
     (Inr \<lparr>r_refId = ''ref-1'', r_txHash = Some ''0xaa'', r_status = pending,
           r_amount = ''1e-16'', r_currency = ''MON''\<rparr>,
      snd (processTransfer env_ok job1 world7))"
proof -
  let ?w1 = "snd (processTransfer env_ok job1 world7)"
  let ?res = "\<lparr>r_refId = ''ref-1'', r_txHash = Some ''0xaa'', r_status = pending,
          r_amount = ''0.0000000000000001'', r_currency = ''MON''\<rparr>"
  have a: "findUnique (\<lambda>r. idempotencyKey r = Some (j_idempotencyKey job2)) ledger1 = Some row1"
    by (simp add: findUnique_def ledger1_def row1_def job2_def job1_def)
  have b: "findUnique (\<lambda>r. idempotencyKey r = Some (j_idempotencyKey job1)) world7 = None"
    by (simp add: findUnique_def world7_def)
  have c: "j_idempotencyKey job2 = j_idempotencyKey job1 \<and> j_refId job2 \<noteq> j_refId job1"
    by (simp add: job2_def job1_def)
  have d: "processTransfer env_ok job1 world7 = (Inr ?res, ?w1)"
    by (simp add: first_transfer)
  have rows: "transactions ?w1 = [row1]"
    by (simp add: first_transfer)
  have k: "idempotencyKey row1 = Some (j_idempotencyKey job1)"
    by (simp add: row1_def job1_def)
  have f: "findUnique (\<lambda>r. idempotencyKey r = Some (j_idempotencyKey job1)) ?w1 = Some row1"
    by (simp add: findUnique_def rows k)
  have fields: "refId row1 = ''ref-1''" "txHash row1 = Some ''0xaa''" "status row1 = pending"
    "currency row1 = ''MON''" "j_refId job1 = ''ref-1''"
    by (simp_all add: row1_def job1_def)
  have pr: "numberToString env_next (amount row1) = ''1e-16''"
    by (simp add: env_next_def env_ok_def)
  have first: "processTransfer env_next job2 ledger1 =
      (Inr \<lparr>r_refId = refId row1, r_txHash = txHash row1, r_status = status row1,
            r_amount = numberToString env_next (amount row1), r_currency = currency row1\<rparr>, ledger1)"
    by (rule idempotent_replay [of job2 ledger1 row1 env_next, THEN conjunct1, THEN mp, OF a])
  have prem: "findUnique (\<lambda>r. idempotencyKey r = Some (j_idempotencyKey job1)) world7 = None \<and>
      processTransfer env_ok job1 world7 = (Inr ?res, ?w1) \<and>
      findUnique (\<lambda>r. idempotencyKey r = Some (j_idempotencyKey job1)) ?w1 = Some row1 \<and>
      j_idempotencyKey job2 = j_idempotencyKey job1"
    by (intro conjI) (rule b, rule d, rule f, rule c [THEN conjunct1])
  note second = idempotent_replay [of job1 world7 _ env_ok "Inr ?res" ?w1 row1 job2 env_next,
      THEN conjunct2, THEN mp, OF prem]
  have one: "filter (\<lambda>r. idempotencyKey r = Some (j_idempotencyKey job1)) (transactions ?w1) = [row1]"
    by (rule second [THEN conjunct1])
  have again: "processTransfer env_next job2 ?w1 =
        (Inr \<lparr>r_refId = j_refId job1, r_txHash = txHash row1, r_status = status row1,
              r_amount = numberToString env_next (amount row1), r_currency = ''MON''\<rparr>, ?w1)"
    by (rule second [THEN conjunct2, THEN conjunct2, THEN conjunct1])
  show ?thesis
    by (intro conjI) (rule a, simp add: first fields pr, rule b, rule c [THEN conjunct1],
        rule c [THEN conjunct2], rule f, rule one, simp add: again fields pr)
qed

section \<open>Stored hashes and status updates\<close>

lemma processTransfer_rows:
  "transactions (snd (processTransfer e job w)) = transactions w \<or>
   (\<exists>row. transactions (snd (processTransfer e job w)) = transactions w @ [row])"
proof (cases "findUnique (\<lambda>r. idempotencyKey r = Some (j_idempotencyKey job)) w")
  case None
  obtain res w' where run: "processTransfer e job w = (res, w')"
    by (cases "processTransfer e job w")
  from processTransfer_fresh [OF None run] show ?thesis
    by (auto simp: run)
next
  case (Some existing)
  then show ?thesis by (simp add: processTransfer_cached)
qed

lemma update_keeps_txHash:
  assumes "\<And>r. txHash (f r) = txHash r" and "i < length (transactions w)"
  shows "txHash (transactions (snd (update ident f w)) ! i) = txHash (transactions w ! i)"
  using assms by (simp add: update_def)

lemma confirmTransaction_snd:
  "snd (confirmTransaction e h transactionId w) =
     (case rpcReceipt e h of
        Inl err \<Rightarrow> w
      | Inr rc \<Rightarrow>
          if rc_status rc = success
          then snd (update transactionId
                 (\<lambda>r. r\<lparr>status := confirmed, gasUsed := Some (rc_gasUsed rc),
                         gasPrice := Some (rc_effectiveGasPrice rc),
                         blockNumber := Some (rc_blockNumber rc),
                         confirmedAt := Some (now e)\<rparr>) w)
          else snd (update transactionId
                 (\<lambda>r. r\<lparr>status := failed,
                         errorMessage := Some ''Transaction reverted on-chain'',
                         gasUsed := Some (rc_gasUsed rc),
                         blockNumber := Some (rc_blockNumber rc)\<rparr>) w))"
  by (simp add: confirmTransaction_def split: sum.split prod.split)

lemma onFailed_snd:
  "onFailed job n w =
     (if 20 \<le> n
      then snd (update (c_transactionId job)
                  (\<lambda>r. r\<lparr>status := expired, errorMessage := Some ''Confirmation timed out''\<rparr>) w)
      else w)"
  by (simp add: onFailed_def)

text \<open>
  Claim C6. A record that has a transaction hash keeps it: \<open>processTransfer\<close> stores a
  hash only on the record the same call has just created and leaves every record that
  was in the table before the call as it was, and neither \<open>confirmTransaction\<close> nor the
  watchdog writes the hash.
\<close>

theorem stored_hash_never_overwritten:
  assumes "i < length (transactions w)"
    and "txHash (transactions w ! i) = Some h"
  shows "i < length (transactions (snd (processTransfer e job w))) \<and>
         transactions (snd (processTransfer e job w)) ! i = transactions w ! i \<and>
         txHash (transactions (snd (processTransfer e job w)) ! i) = Some h \<and>
         txHash (transactions (snd (confirmTransaction e' h' transactionId w)) ! i) = Some h \<and>
         txHash (transactions (onFailed cjob n w) ! i) = Some h"
proof (intro conjI)
  show "i < length (transactions (snd (processTransfer e job w)))"
    using processTransfer_rows [of e job w] assms by auto
  show "transactions (snd (processTransfer e job w)) ! i = transactions w ! i"
    using processTransfer_rows [of e job w] assms by (auto simp: nth_append)
  then show "txHash (transactions (snd (processTransfer e job w)) ! i) = Some h"
    using assms(2) by simp
  show "txHash (transactions (snd (confirmTransaction e' h' transactionId w)) ! i) = Some h"
    using assms
    by (simp add: confirmTransaction_snd update_keeps_txHash split: sum.split)
  show "txHash (transactions (onFailed cjob n w) ! i) = Some h"
    using assms by (simp add: onFailed_snd update_keeps_txHash)
qed

lemma next_transfer_rows:
  "transactions (snd (processTransfer env_next job_next ledger1)) =
     [row1, row1\<lparr>row_id := ''t2'', refId := ''ref-3'', idempotencyKey := Some ''key-3'',
                 txHash := Some ''0xbb''\<rparr>]"
  by (simp add: processTransfer_def findUnique_def decryptWalletAddress_def create_def
      executePoolTransfer_def acquireNonce_def getGasPrice_def sendTransaction_def
      addGasBuffer_def bigint_div_def update_def to_double_7 INT64_MIN_def INT64_MAX_def
      env_next_def env_ok_def job_next_def job1_def ledger1_def world7_def row1_def)

theorem stored_hash_never_overwritten_witness:
  "0 < length (transactions ledger1) \<and> txHash (transactions ledger1 ! 0) = Some ''0xaa'' \<and>
   length (transactions (snd (processTransfer env_next job_next ledger1))) = 2 \<and>
   transactions (snd (processTransfer env_next job_next ledger1)) ! 0 = row1 \<and>
   txHash (transactions (snd (processTransfer env_next job_next ledger1)) ! 0) = Some ''0xaa'' \<and>
   txHash (transactions (snd (processTransfer env_next job_next ledger1)) ! 1) = Some ''0xbb'' \<and>
   txHash (transactions (snd (confirmTransaction env_mined ''0xaa'' ''t1'' ledger1)) ! 0) = Some ''0xaa'' \<and>
   txHash (transactions (onFailed confirm1 20 ledger1) ! 0) = Some ''0xaa''"
proof -
  have a: "0 < length (transactions ledger1)"
    by (simp add: ledger1_def)
  have b: "txHash (transactions ledger1 ! 0) = Some ''0xaa''"
    by (simp add: ledger1_def row1_def)
  have c: "transactions ledger1 ! 0 = row1"
    by (simp add: ledger1_def)
  show ?thesis
    using stored_hash_never_overwritten [OF a b, of env_next job_next env_mined "''0xaa''" "''t1''" confirm1 20] a b
    by (simp add: c next_transfer_rows)
qed

text \<open>
  Claim C5, as stated, fails: neither \<open>confirmTransaction\<close> nor the watchdog looks at
  the current status. A record that is \<open>expired\<close> becomes \<open>confirmed\<close> on a success
  receipt and \<open>failed\<close> with a new detail on a reverted one, and the watchdog sets a
  \<open>confirmed\<close> record to \<open>expired\<close>.
\<close>

theorem terminal_status_overwritten:
  "map status (transactions ledger_expired) = [expired] \<and>
   map errorMessage (transactions ledger_expired) = [Some ''Confirmation timed out''] \<and>
   map status (transactions (snd (confirmTransaction env_mined ''0xaa'' ''t1'' ledger_expired))) =
     [confirmed] \<and>
   map status (transactions (snd (confirmTransaction env_reverted ''0xaa'' ''t1'' ledger_expired))) =
     [failed] \<and>
   map errorMessage (transactions (snd (confirmTransaction env_reverted ''0xaa'' ''t1'' ledger_expired))) =
     [Some ''Transaction reverted on-chain''] \<and>
   map status (transactions (onFailed confirm1 20
       (snd (confirmTransaction env_mined ''0xaa'' ''t1'' ledger_expired)))) = [expired]"
  by (simp add: confirmTransaction_def onFailed_def update_def ledger_expired_def ledger1_def
      row1_def world7_def env_mined_def env_reverted_def env_ok_def receipt_ok_def confirm1_def)

lemma update_relates:
  assumes "\<And>r. row_id (f r) = row_id r \<and> terminal (status (f r))"
  shows "list_all2 (\<lambda>x x'. row_id x' = row_id x \<and> (row_id x \<noteq> ident \<longrightarrow> x' = x) \<and>
                     (terminal (status x) \<longrightarrow> terminal (status x')))
           (transactions w) (transactions (snd (update ident f w)))"
  by (simp add: update_def list_all2_map2 list_all2_same assms)

text \<open>
  Claim C5, amended. For the record stored under the given id, whatever its status:
  with no receipt \<open>confirmTransaction\<close> reports \<open>pending\<close> and changes nothing; with a
  success receipt it sets the status \<open>confirmed\<close> with gas, price, block and time and
  keeps the error detail; with a reverted receipt it sets \<open>failed\<close> and the detail
  \<open>Transaction reverted on-chain\<close>; the watchdog changes nothing before the twentieth
  failed attempt and from the twentieth sets \<open>expired\<close> and \<open>Confirmation timed out\<close>.
  Records under other ids are untouched, no id changes, and a terminal status is only
  ever replaced by a terminal status.
\<close>

theorem status_updates_unguarded:
  assumes "findUnique (\<lambda>r. row_id r = transactionId) w = Some r"
    and "c_transactionId job = transactionId"
  shows "(rpcReceipt e h = Inl err \<longrightarrow> confirmTransaction e h transactionId w = (pending, w)) \<and>
         (rpcReceipt e h = Inr rc \<and> rc_status rc = success \<longrightarrow>
            fst (confirmTransaction e h transactionId w) = confirmed \<and>
            findUnique (\<lambda>r. row_id r = transactionId) (snd (confirmTransaction e h transactionId w)) =
              Some (r\<lparr>status := confirmed, gasUsed := Some (rc_gasUsed rc),
                      gasPrice := Some (rc_effectiveGasPrice rc),
                      blockNumber := Some (rc_blockNumber rc), confirmedAt := Some (now e)\<rparr>)) \<and>
         (rpcReceipt e h = Inr rc \<and> rc_status rc = reverted \<longrightarrow>
            fst (confirmTransaction e h transactionId w) = failed \<and>
            findUnique (\<lambda>r. row_id r = transactionId) (snd (confirmTransaction e h transactionId w)) =
              Some (r\<lparr>status := failed, errorMessage := Some ''Transaction reverted on-chain'',
                      gasUsed := Some (rc_gasUsed rc), blockNumber := Some (rc_blockNumber rc)\<rparr>)) \<and>
         (n < 20 \<longrightarrow> onFailed job n w = w) \<and>
         (20 \<le> n \<longrightarrow>
            findUnique (\<lambda>r. row_id r = transactionId) (onFailed job n w) =
              Some (r\<lparr>status := expired, errorMessage := Some ''Confirmation timed out''\<rparr>)) \<and>
         list_all2 (\<lambda>x x'. row_id x' = row_id x \<and> (row_id x \<noteq> transactionId \<longrightarrow> x' = x) \<and>
                     (terminal (status x) \<longrightarrow> terminal (status x')))
           (transactions w) (transactions (snd (confirmTransaction e h transactionId w))) \<and>
         list_all2 (\<lambda>x x'. row_id x' = row_id x \<and> (row_id x \<noteq> transactionId \<longrightarrow> x' = x) \<and>
                     (terminal (status x) \<longrightarrow> terminal (status x')))
           (transactions w) (transactions (onFailed job n w))"
proof -
  let ?R = "\<lambda>x x'. row_id x' = row_id x \<and> (row_id x \<noteq> transactionId \<longrightarrow> x' = x) \<and>
                     (terminal (status x) \<longrightarrow> terminal (status x'))"
  let ?ok = "\<lambda>rc r. r\<lparr>status := confirmed, gasUsed := Some (rc_gasUsed rc),
                      gasPrice := Some (rc_effectiveGasPrice rc),
                      blockNumber := Some (rc_blockNumber rc), confirmedAt := Some (now e)\<rparr>"
  let ?bad = "\<lambda>rc r. r\<lparr>status := failed, errorMessage := Some ''Transaction reverted on-chain'',
                      gasUsed := Some (rc_gasUsed rc), blockNumber := Some (rc_blockNumber rc)\<rparr>"
  let ?exp = "\<lambda>r. r\<lparr>status := expired, errorMessage := Some ''Confirmation timed out''\<rparr>"
  let ?upd = "\<lambda>f. w\<lparr>transactions := map (\<lambda>r. if row_id r = transactionId then f r else r) (transactions w)\<rparr>"
  have same: "list_all2 ?R (transactions w) (transactions w)"
    by (simp add: list_all2_same)
  have absent: "rpcReceipt e h = Inl err \<longrightarrow> confirmTransaction e h transactionId w = (pending, w)"
    by (simp add: confirmTransaction_def)
  have mined: "rpcReceipt e h = Inr rc \<and> rc_status rc = success \<longrightarrow>
      fst (confirmTransaction e h transactionId w) = confirmed \<and>
      findUnique (\<lambda>r. row_id r = transactionId) (snd (confirmTransaction e h transactionId w)) =
        Some (?ok rc r)"
  proof
    assume rc: "rpcReceipt e h = Inr rc \<and> rc_status rc = success"
    have c: "confirmTransaction e h transactionId w = (confirmed, ?upd (?ok rc))"
      using rc by (simp add: confirmTransaction_def update_found [OF assms(1)])
    have "findUnique (\<lambda>r. row_id r = transactionId) (?upd (?ok rc)) =
        map_option (?ok rc) (findUnique (\<lambda>r. row_id r = transactionId) w)"
      by (rule findUnique_updated) simp
    then show "fst (confirmTransaction e h transactionId w) = confirmed \<and>
      findUnique (\<lambda>r. row_id r = transactionId) (snd (confirmTransaction e h transactionId w)) =
        Some (?ok rc r)"
      by (simp add: c assms(1))
  qed
  have rev: "rpcReceipt e h = Inr rc \<and> rc_status rc = reverted \<longrightarrow>
      fst (confirmTransaction e h transactionId w) = failed \<and>
      findUnique (\<lambda>r. row_id r = transactionId) (snd (confirmTransaction e h transactionId w)) =
        Some (?bad rc r)"
  proof
    assume rc: "rpcReceipt e h = Inr rc \<and> rc_status rc = reverted"
    have c: "confirmTransaction e h transactionId w = (failed, ?upd (?bad rc))"
      using rc by (simp add: confirmTransaction_def update_found [OF assms(1)])
    have "findUnique (\<lambda>r. row_id r = transactionId) (?upd (?bad rc)) =
        map_option (?bad rc) (findUnique (\<lambda>r. row_id r = transactionId) w)"
      by (rule findUnique_updated) simp
    then show "fst (confirmTransaction e h transactionId w) = failed \<and>
      findUnique (\<lambda>r. row_id r = transactionId) (snd (confirmTransaction e h transactionId w)) =
        Some (?bad rc r)"
      by (simp add: c assms(1))
  qed
  have early: "n < 20 \<longrightarrow> onFailed job n w = w"
    by (simp add: onFailed_def)
  have late: "20 \<le> n \<longrightarrow>
      findUnique (\<lambda>r. row_id r = transactionId) (onFailed job n w) = Some (?exp r)"
  proof
    assume n: "20 \<le> n"
    have o: "onFailed job n w = ?upd ?exp"
      using n by (simp add: onFailed_def assms(2) update_found [OF assms(1)])
    have "findUnique (\<lambda>r. row_id r = transactionId) (?upd ?exp) =
        map_option ?exp (findUnique (\<lambda>r. row_id r = transactionId) w)"
      by (rule findUnique_updated) simp
    then show "findUnique (\<lambda>r. row_id r = transactionId) (onFailed job n w) = Some (?exp r)"
      by (simp add: o assms(1))
  qed
  have rel_confirm: "list_all2 ?R (transactions w)
      (transactions (snd (confirmTransaction e h transactionId w)))"
  proof (cases "rpcReceipt e h")
    case (Inl err)
    then show ?thesis using same by (simp add: confirmTransaction_snd)
  next
    case (Inr rc)
    have ok: "list_all2 ?R (transactions w) (transactions (snd (update transactionId (?ok rc) w)))"
      by (rule update_relates) (simp add: terminal_def)
    have bad: "list_all2 ?R (transactions w) (transactions (snd (update transactionId (?bad rc) w)))"
      by (rule update_relates) (simp add: terminal_def)
    show ?thesis
      using ok bad by (simp add: confirmTransaction_snd Inr)
  qed
  have rel_failed: "list_all2 ?R (transactions w) (transactions (onFailed job n w))"
  proof (cases "20 \<le> n")
    case True
    have "list_all2 ?R (transactions w) (transactions (snd (update transactionId ?exp w)))"
      by (rule update_relates) (simp add: terminal_def)
    then show ?thesis using True by (simp add: onFailed_snd assms(2))
  next
    case False
    then show ?thesis using same by (simp add: onFailed_snd)
  qed
  show ?thesis
    by (intro conjI) (rule absent, rule mined, rule rev, rule early, rule late,
        rule rel_confirm, rule rel_failed)
qed

lemma expired_row_found:
  "findUnique (\<lambda>r. row_id r = ''t1'') ledger_expired =
     Some (row1\<lparr>status := expired, errorMessage := Some ''Confirmation timed out''\<rparr>)"
  by (simp add: findUnique_def ledger_expired_def ledger1_def row1_def)

theorem status_updates_unguarded_witness:
  "findUnique (\<lambda>r. row_id r = ''t1'') ledger_expired =
     Some (row1\<lparr>status := expired, errorMessage := Some ''Confirmation timed out''\<rparr>) \<and>
   c_transactionId confirm1 = ''t1'' \<and>
   rpcReceipt env_ok ''0xaa'' = Inl ReceiptNotFound \<and>
   confirmTransaction env_ok ''0xaa'' ''t1'' ledger_expired = (pending, ledger_expired) \<and>
   rpcReceipt env_mined ''0xaa'' = Inr receipt_ok \<and> rc_status receipt_ok = success \<and>
   fst (confirmTransaction env_mined ''0xaa'' ''t1'' ledger_expired) = confirmed \<and>
   findUnique (\<lambda>r. row_id r = ''t1'') (snd (confirmTransaction env_mined ''0xaa'' ''t1'' ledger_expired)) =
     Some (row1\<lparr>status := confirmed, errorMessage := Some ''Confirmation timed out'',
                 gasUsed := Some 21000, gasPrice := Some 50, blockNumber := Some 12,
                 confirmedAt := Some 1000\<rparr>) \<and>
   rpcReceipt env_reverted ''0xaa'' = Inr (receipt_ok\<lparr>rc_status := reverted\<rparr>) \<and>
   fst (confirmTransaction env_reverted ''0xaa'' ''t1'' ledger_expired) = failed \<and>
   findUnique (\<lambda>r. row_id r = ''t1'') (snd (confirmTransaction env_reverted ''0xaa'' ''t1'' ledger_expired)) =
     Some (row1\<lparr>status := failed, errorMessage := Some ''Transaction reverted on-chain'',
                 gasUsed := Some 21000, blockNumber := Some 12\<rparr>) \<and>
   onFailed confirm1 19 ledger_expired = ledger_expired \<and>
   findUnique (\<lambda>r. row_id r = ''t1'')
     (onFailed confirm1 20 (snd (confirmTransaction env_mined ''0xaa'' ''t1'' ledger_expired))) =
     Some (row1\<lparr>status := expired, errorMessage := Some ''Confirmation timed out'',
                 gasUsed := Some 21000, gasPrice := Some 50, blockNumber := Some 12,
                 confirmedAt := Some 1000\<rparr>)"
proof -
  let ?x = "row1\<lparr>status := expired, errorMessage := Some ''Confirmation timed out''\<rparr>"
  let ?w = "snd (confirmTransaction env_mined ''0xaa'' ''t1'' ledger_expired)"
  let ?c = "row1\<lparr>status := confirmed, errorMessage := Some ''Confirmation timed out'',
                 gasUsed := Some 21000, gasPrice := Some 50, blockNumber := Some 12,
                 confirmedAt := Some 1000\<rparr>"
  have j: "c_transactionId confirm1 = ''t1''"
    by (simp add: confirm1_def)
  have a: "rpcReceipt env_ok ''0xaa'' = Inl ReceiptNotFound"
    by (simp add: env_ok_def)
  have b: "rpcReceipt env_mined ''0xaa'' = Inr receipt_ok \<and> rc_status receipt_ok = success"
    by (simp add: env_mined_def env_ok_def receipt_ok_def)
  have c: "rpcReceipt env_reverted ''0xaa'' = Inr (receipt_ok\<lparr>rc_status := reverted\<rparr>) \<and>
           rc_status (receipt_ok\<lparr>rc_status := reverted\<rparr>) = reverted"
    by (simp add: env_reverted_def env_ok_def)
  have n: "now env_mined = 1000" "now env_reverted = 1000"
    by (simp_all add: env_mined_def env_reverted_def env_ok_def)
  have rcv: "rc_gasUsed receipt_ok = 21000" "rc_effectiveGasPrice receipt_ok = 50"
    "rc_blockNumber receipt_ok = 12"
    by (simp_all add: receipt_ok_def)
  note t = status_updates_unguarded [OF expired_row_found j]
  have p1: "confirmTransaction env_ok ''0xaa'' ''t1'' ledger_expired = (pending, ledger_expired)"
    by (rule t [of env_ok "''0xaa''" ReceiptNotFound receipt_ok 19, THEN conjunct1, THEN mp, OF a])
  have p2: "fst (confirmTransaction env_mined ''0xaa'' ''t1'' ledger_expired) = confirmed \<and>
      findUnique (\<lambda>r. row_id r = ''t1'') ?w = Some ?c"
    using t [of env_mined "''0xaa''" ReceiptNotFound receipt_ok 19,
        THEN conjunct2, THEN conjunct1, THEN mp, OF b]
    by (simp add: n rcv)
  have p3: "fst (confirmTransaction env_reverted ''0xaa'' ''t1'' ledger_expired) = failed \<and>
      findUnique (\<lambda>r. row_id r = ''t1'') (snd (confirmTransaction env_reverted ''0xaa'' ''t1'' ledger_expired)) =
        Some (row1\<lparr>status := failed, errorMessage := Some ''Transaction reverted on-chain'',
                 gasUsed := Some 21000, blockNumber := Some 12\<rparr>)"
    using t [of env_reverted "''0xaa''" ReceiptNotFound "receipt_ok\<lparr>rc_status := reverted\<rparr>" 19,
        THEN conjunct2, THEN conjunct2, THEN conjunct1, THEN mp, OF c]
    by (simp add: n rcv)
  have p4: "onFailed confirm1 19 ledger_expired = ledger_expired"
    using t [of env_ok "''0xaa''" ReceiptNotFound receipt_ok 19,
        THEN conjunct2, THEN conjunct2, THEN conjunct2, THEN conjunct1]
    by simp
  have p5: "findUnique (\<lambda>r. row_id r = ''t1'') (onFailed confirm1 20 ?w) =
      Some (?c\<lparr>status := expired, errorMessage := Some ''Confirmation timed out''\<rparr>)"
    using status_updates_unguarded [OF p2 [THEN conjunct2] j, of env_ok "''0xaa''" ReceiptNotFound receipt_ok 20,
        THEN conjunct2, THEN conjunct2, THEN conjunct2, THEN conjunct2, THEN conjunct1]
    by simp
  show ?thesis
    using expired_row_found j a b c p1 p2 p3 p4 p5 by simp
qed

end
